theory Spec2Isabelle
  imports Main
begin

section \<open>Branch listing of dugite-extra: \<open>src/command/branch.ts\<close>\<close>

text \<open>
  The module asks an external git process for the refs of a repository and decodes the text
  it prints into \<open>Branch\<close> objects. The model follows the TypeScript line by line:
  \<^item> a JavaScript string is a \<open>string\<close>, one \<open>char\<close> per code unit (code units below 256);
  \<^item> \<open>undefined\<close> is \<open>None\<close>, so an array read \<open>pieces[i]\<close> is an optional string;
  \<^item> a \<open>throw\<close> (or a rejected promise) is \<open>Inl\<close> of a sum type;
  \<^item> the collaborators imported from files outside this module (\<open>git\<close>,
    \<open>CommitIdentity.parseIdentity\<close>, the getters of \<open>Branch\<close>, \<open>process.platform\<close>) are
    parameters;
  \<^item> every \<open>await git(...)\<close> passes an explicit process state on and records its argument
    list in the order of the calls.
  \<open>createBranch\<close> and \<open>renameBranch\<close> only assemble an argument list and call \<open>git\<close>; they
  are not modelled.
\<close>

subsection \<open>JavaScript string primitives\<close>

text \<open>
  \<open>String.prototype.split\<close> with a separator of one code unit: the pieces between the
  occurrences of the separator, so one piece more than there are separators; the empty string
  splits into one empty piece. \<open>split_from\<close> scans the string with the piece read so far.
\<close>

fun split_from :: "char \<Rightarrow> string \<Rightarrow> string \<Rightarrow> string list" where
  "split_from sep piece [] = [piece]"
| "split_from sep piece (c # cs) =
     (if c = sep then piece # split_from sep [] cs else split_from sep (piece @ [c]) cs)"

definition str_split :: "char \<Rightarrow> string \<Rightarrow> string list" where
  "str_split sep s = split_from sep [] s"

text \<open>\<open>String.prototype.startsWith\<close>.\<close>

definition startsWith :: "string \<Rightarrow> string \<Rightarrow> bool" where
  "startsWith s p = (take (length p) s = p)"

text \<open>
  \<open>String.prototype.trim\<close> removes white space and line terminators from both ends; among the
  code units below 256 these are TAB, LF, VT, FF, CR, SPACE and NBSP.
\<close>

definition isWhiteSpace :: "char \<Rightarrow> bool" where
  "isWhiteSpace c = (c \<in> set [CHR 0x09, CHR 0x0A, CHR 0x0B, CHR 0x0C, CHR 0x0D, CHR 0x20, CHR 0xA0])"

definition trim :: "string \<Rightarrow> string" where
  "trim s = rev (dropWhile isWhiteSpace (rev (dropWhile isWhiteSpace s)))"

text \<open>
  \<open>s.replace(re, '')\<close> for the regular expression \<open>^heads\/\<close> of the source: one leading
  \<open>heads/\<close> is removed when it is there.
\<close>

definition stripHeads :: "string \<Rightarrow> string" where
  "stripHeads s = (if startsWith s ''heads/'' then drop 6 s else s)"

text \<open>\<open>xs[i]\<close> on a JavaScript array: \<open>undefined\<close> out of range.\<close>

definition at :: "'a list \<Rightarrow> nat \<Rightarrow> 'a option" where
  "at xs i = (if i < length xs then Some (xs ! i) else None)"

text \<open>A value inside a template literal: \<open>undefined\<close> prints as the word.\<close>

definition interpolate :: "string option \<Rightarrow> string" where
  "interpolate v = (case v of None \<Rightarrow> ''undefined'' | Some s \<Rightarrow> s)"

subsection \<open>The data model\<close>

text \<open>
  What a command can throw: an \<open>Error\<close> with its message, the TypeError of a property read
  on \<open>undefined\<close>, or the error of a failed git invocation.
\<close>

datatype error = Error string | TypeError | GitError string

text \<open>
  Modelled from the spec: the enumeration \<open>BranchType\<close> and the class \<open>Branch\<close> of
  \<open>model/branch\<close> are declared outside this module. A branch is classified Local or Remote;
  it has a name, an optional upstream, a tip and its classification, the four arguments of
  \<open>new Branch(name, upstream, tip, type)\<close>. The tip is the object literal
  \<open>{ sha, summary, body, author, parentSHAs }\<close> of line 123; its summary and body are
  \<open>undefined\<close> when the record has no such piece, and its author is the identity type \<open>'i\<close> of the
  external parser.
\<close>

datatype BranchType = Local | Remote

record 'i Commit =
  sha :: string
  summary :: "string option"
  body :: "string option"
  author :: 'i
  parentSHAs :: "string list"

record 'i Branch =
  name :: string
  upstream :: "string option"
  tip :: "'i Commit"
  type :: BranchType

subsection \<open>The format of the batch query (lines 5 to 17)\<close>

text \<open>
  \<open>parseInt(s, 16)\<close>: the value of the leading hexadecimal digits (NaN, here \<open>None\<close>, when
  there is none).
\<close>

definition hexDigit :: "char \<Rightarrow> nat option" where
  "hexDigit c =
     (let n = of_char c :: nat in
      if 48 \<le> n \<and> n \<le> 57 then Some (n - 48)
      else if 65 \<le> n \<and> n \<le> 70 then Some (n - 55)
      else if 97 \<le> n \<and> n \<le> 102 then Some (n - 87)
      else None)"

fun parseHex :: "nat option \<Rightarrow> string \<Rightarrow> nat option" where
  "parseHex acc [] = acc"
| "parseHex acc (c # cs) =
     (case hexDigit c of
        None \<Rightarrow> acc
      | Some d \<Rightarrow> parseHex (Some (16 * (case acc of None \<Rightarrow> 0 | Some a \<Rightarrow> a) + d)) cs)"

definition parseInt16 :: "string \<Rightarrow> nat option" where
  "parseInt16 s = parseHex None s"

text \<open>\<open>String.fromCharCode\<close>; NaN converts to code unit 0.\<close>

definition fromCharCode :: "nat option \<Rightarrow> char" where
  "fromCharCode n = (case n of None \<Rightarrow> CHR 0x00 | Some k \<Rightarrow> char_of k)"

text \<open>\<open>Array.prototype.join\<close>.\<close>

fun join :: "string \<Rightarrow> string list \<Rightarrow> string" where
  "join sep [] = []"
| "join sep [x] = x"
| "join sep (x # y # ys) = x @ sep @ join sep (y # ys)"

definition delimiter :: string where
  "delimiter = ''1F''"

definition delimiterString :: char where
  "delimiterString = fromCharCode (parseInt16 delimiter)"

definition forEachRefFormat :: string where
  "forEachRefFormat =
     join ''%00''
       [''%(refname)'', ''%(refname:short)'', ''%(upstream:short)'', ''%(objectname)'',
        ''%(author)'', ''%(parent)'', ''%(subject)'', ''%(body)'', ''%'' @ delimiter]"

subsection \<open>Decoding and reconstruction (lines 97 to 129 of \<open>getBranches\<close>)\<close>

text \<open>
  The callback of \<open>lines.map\<close> is \<open>branchOfLine\<close>. Its first expression,
  \<open>(ix > 0 ? line.substr(1) : line).split('\0')\<close>, is \<open>piecesOf\<close>; the rest of its body, which
  only reads \<open>pieces\<close>, is \<open>reconstruct\<close>. \<open>parseIdentity\<close> is the external identity parser: it is
  handed \<open>pieces[4]\<close>, which is \<open>undefined\<close> for a record of fewer than five pieces, and it
  may throw, return nothing (\<open>null\<close>) or return an identity. After it the callback reads
  \<open>pieces[5].split(' ')\<close>, which throws a TypeError when there are fewer than six pieces;
  from six pieces on no further read can throw: \<open>pieces[0]\<close> to \<open>pieces[5]\<close> are strings and
  \<open>pieces[6]\<close>, \<open>pieces[7]\<close> are stored as they are, \<open>undefined\<close> when absent.
\<close>

definition piecesOf :: "string \<Rightarrow> nat \<Rightarrow> string list" where
  "piecesOf line ix = str_split (CHR 0x00) (if ix > 0 then drop 1 line else line)"

definition reconstruct ::
  "(string option \<Rightarrow> error + 'i option) \<Rightarrow> string list \<Rightarrow> error + 'i Branch" where
  "reconstruct parseIdentity pieces =
     (let authorIdentity = at pieces 4
      in case parseIdentity authorIdentity of
           Inl e \<Rightarrow> Inl e
         | Inr None \<Rightarrow>
             Inl (Error (''Couldn't parse author identity '' @ interpolate authorIdentity @ ''.''))
         | Inr (Some identity) \<Rightarrow>
             (case pieces of
                ref # shortName # shortUpstream # objectName # _ # parents # rest \<Rightarrow>
                  Inr \<lparr>name = shortName,
                       upstream = (if length shortUpstream > 0 then Some shortUpstream else None),
                       tip = \<lparr>sha = objectName, summary = at rest 0, body = at rest 1,
                              author = identity, parentSHAs = str_split (CHR '' '') parents\<rparr>,
                       type = (if startsWith ref ''refs/head'' then Local else Remote)\<rparr>
              | _ \<Rightarrow> Inl TypeError))"

definition branchOfLine ::
  "(string option \<Rightarrow> error + 'i option) \<Rightarrow> string \<Rightarrow> nat \<Rightarrow> error + 'i Branch" where
  "branchOfLine parseIdentity line ix = reconstruct parseIdentity (piecesOf line ix)"

text \<open>\<open>Array.prototype.map\<close> with a callback that may throw: the first throw ends the loop.\<close>

fun mapWithIndex :: "('a \<Rightarrow> nat \<Rightarrow> error + 'b) \<Rightarrow> nat \<Rightarrow> 'a list \<Rightarrow> error + 'b list" where
  "mapWithIndex f ix [] = Inr []"
| "mapWithIndex f ix (x # xs) =
     (case f x ix of
        Inl e \<Rightarrow> Inl e
      | Inr y \<Rightarrow> (case mapWithIndex f (Suc ix) xs of Inl e \<Rightarrow> Inl e | Inr ys \<Rightarrow> Inr (y # ys)))"

text \<open>
  The records of the output: split at the delimiter, the last element dropped
  (\<open>lines.splice(-1, 1)\<close>).
\<close>

definition recordLines :: "string \<Rightarrow> string list" where
  "recordLines names = butlast (str_split delimiterString names)"

definition decodeBranches ::
  "(string option \<Rightarrow> error + 'i option) \<Rightarrow> string \<Rightarrow> string \<Rightarrow> error + 'i Branch list" where
  "decodeBranches parseIdentity platform names =
     (case mapWithIndex (branchOfLine parseIdentity) 0 (recordLines names) of
        Inl e \<Rightarrow> Inl e
      | Inr branches \<Rightarrow> Inr (if platform = ''darwin'' then rev branches else branches))"

subsection \<open>The external git process\<close>

text \<open>
  Modelled from the spec: the result and option types of \<open>core/git\<close> are declared outside this
  module. A result holds the standard output and the exit code, the two properties read
  here.
\<close>

record IGitResult =
  stdout :: string
  exitCode :: int

text \<open>
  \<open>IGitExecutionOptions\<close>: the exit codes the caller accepts, and every other property of
  the object, which this module only passes on (\<open>None\<close> when there is none).
\<close>

record 'x IGitExecutionOptions =
  successExitCodes :: "int set option"
  others :: "'x option"

text \<open>
  \<open>git(args, repositoryPath, name, options)\<close> of \<open>core/git\<close> is a parameter: it runs on a
  state of the outside world \<open>'w\<close> (the repository), changes it, and returns a result or
  throws.
\<close>

type_synonym ('x, 'w) git =
  "string list \<Rightarrow> string \<Rightarrow> string \<Rightarrow> 'x IGitExecutionOptions option \<Rightarrow> 'w
     \<Rightarrow> (error + IGitResult) \<times> 'w"

text \<open>The state threaded through a command: the world, and the invocations issued so far.\<close>

record 'w process =
  world :: 'w
  issued :: "string list list"

definition await_git ::
  "('x, 'w) git \<Rightarrow> string list \<Rightarrow> string \<Rightarrow> string \<Rightarrow> 'x IGitExecutionOptions option
     \<Rightarrow> 'w process \<Rightarrow> (error + IGitResult) \<times> 'w process" where
  "await_git git args repositoryPath label options s =
     (case git args repositoryPath label options (world s) of
        (r, w) \<Rightarrow> (r, \<lparr>world = w, issued = issued s @ [args]\<rparr>))"

subsection \<open>\<open>getBranches\<close> (lines 90 to 130)\<close>

definition forEachRefArgs :: "string list \<Rightarrow> string list" where
  "forEachRefArgs prefixes =
     [''for-each-ref'', ''--format='' @ forEachRefFormat, ''--sort=-committerdate'']
       @ (if prefixes = [] then [''refs/heads'', ''refs/remotes''] else prefixes)"

text \<open>
  The ref paths the batch query can print: its patterns are \<open>refs/heads\<close> and
  \<open>refs/remotes\<close> (line 92), or the one ref \<open>refs/heads/\<close> followed by a name (line 42),
  and git prints only refs that match a pattern completely or up to a slash.
\<close>

definition inRequestedNamespace :: "string \<Rightarrow> bool" where
  "inRequestedNamespace ref = (startsWith ref ''refs/heads/'' \<or> startsWith ref ''refs/remotes/'')"

definition getBranches ::
  "('x, 'w) git \<Rightarrow> (string option \<Rightarrow> error + 'i option) \<Rightarrow> string \<Rightarrow> string \<Rightarrow> string list
     \<Rightarrow> 'x IGitExecutionOptions option \<Rightarrow> 'w process \<Rightarrow> (error + 'i Branch list) \<times> 'w process" where
  "getBranches git parseIdentity platform repositoryPath prefixes options s =
     (case await_git git (forEachRefArgs prefixes) repositoryPath ''getBranches'' options s of
        (Inl e, s') \<Rightarrow> (Inl e, s')
      | (Inr result, s') \<Rightarrow> (decodeBranches parseIdentity platform (stdout result), s'))"

subsection \<open>\<open>listBranch\<close> (lines 19 to 52)\<close>

datatype ListType = ListCurrent | ListLocal | ListRemote | ListAll

text \<open>
  The result: \<open>undefined | Branch\<close> for \<open>'current'\<close>, \<open>Branch[]\<close> for the other types. The
  \<open>default\<close> branch of the \<open>switch\<close> throws for a type outside the four, which the parameter's
  type excludes.
\<close>

datatype 'i Listing = Current "'i Branch option" | Branches "'i Branch list"

text \<open>\<open>Array.prototype.shift\<close>, as an expression: the first element, \<open>undefined\<close> when empty.\<close>

definition shift :: "'a list \<Rightarrow> 'a option" where
  "shift xs = (case xs of [] \<Rightarrow> None | x # _ \<Rightarrow> Some x)"

definition listBranch ::
  "('x, 'w) git \<Rightarrow> (string option \<Rightarrow> error + 'i option) \<Rightarrow> string \<Rightarrow> string \<Rightarrow> ListType
     \<Rightarrow> 'x IGitExecutionOptions option \<Rightarrow> 'w process \<Rightarrow> (error + 'i Listing) \<times> 'w process" where
  "listBranch git parseIdentity platform repositoryPath listType options s =
     (if listType = ListCurrent then
        (let opts = \<lparr>successExitCodes = Some {0, 1, 128},
                     others = (case options of None \<Rightarrow> None | Some opt \<Rightarrow> others opt)\<rparr>
         in case await_git git [''rev-parse'', ''--abbrev-ref'', ''HEAD''] repositoryPath
                   ''getCurrentBranch'' (Some opts) s of
              (Inl e, s1) \<Rightarrow> (Inl e, s1)
            | (Inr result, s1) \<Rightarrow>
                if exitCode result = 1 \<or> exitCode result = 128 then (Inr (Current None), s1)
                else
                  (let branchName = stripHeads (trim (stdout result))
                   in case getBranches git parseIdentity platform repositoryPath
                             [''refs/heads/'' @ branchName] options s1 of
                        (Inl e, s2) \<Rightarrow> (Inl e, s2)
                      | (Inr branches, s2) \<Rightarrow> (Inr (Current (shift branches)), s2)))
      else
        (case getBranches git parseIdentity platform repositoryPath [] options s of
           (Inl e, s1) \<Rightarrow> (Inl e, s1)
         | (Inr result, s1) \<Rightarrow>
             (Inr (Branches
                (case listType of
                   ListLocal \<Rightarrow> filter (\<lambda>branch. type branch = Local) result
                 | ListRemote \<Rightarrow> filter (\<lambda>branch. type branch = Remote) result
                 | _ \<Rightarrow> result)), s1)))"

subsection \<open>\<open>deleteBranch\<close> (lines 75 to 88)\<close>

record DeleteOptions =
  force :: "bool option"
  remote :: "bool option"

text \<open>An optional boolean used as a condition: \<open>undefined\<close> and \<open>false\<close> are falsy.\<close>

definition truthy :: "bool option \<Rightarrow> bool" where
  "truthy v = (v = Some True)"

text \<open>\<open>Array.prototype.find\<close>: the first element that satisfies the predicate.\<close>

fun find_first :: "('a \<Rightarrow> bool) \<Rightarrow> 'a list \<Rightarrow> 'a option" where
  "find_first p [] = None"
| "find_first p (x # xs) = (if p x then Some x else find_first p xs)"

text \<open>
  The getters \<open>remote\<close> and \<open>upstreamWithoutRemote\<close> of the class \<open>Branch\<close> are the parameters
  \<open>branchRemote\<close> and \<open>branchUpstreamWithoutRemote\<close>. \<open>branch.remote\<close> is truthy when it is
  a non-empty string.
\<close>

definition forceOption :: "DeleteOptions option \<Rightarrow> bool option" where
  "forceOption deleteOptions = (case deleteOptions of None \<Rightarrow> Some False | Some d \<Rightarrow> force d)"

definition remoteOption :: "DeleteOptions option \<Rightarrow> bool option" where
  "remoteOption deleteOptions = (case deleteOptions of None \<Rightarrow> Some False | Some d \<Rightarrow> remote d)"

definition deleteBranch ::
  "('x, 'w) git \<Rightarrow> (string option \<Rightarrow> error + 'i option) \<Rightarrow> string
     \<Rightarrow> ('i Branch \<Rightarrow> string option) \<Rightarrow> ('i Branch \<Rightarrow> string option)
     \<Rightarrow> string \<Rightarrow> string \<Rightarrow> DeleteOptions option \<Rightarrow> 'x IGitExecutionOptions option
     \<Rightarrow> 'w process \<Rightarrow> (error + unit) \<times> 'w process" where
  "deleteBranch git parseIdentity platform branchRemote branchUpstreamWithoutRemote
       repositoryPath branchName deleteOptions options s =
     (let args = [''branch'', (if truthy (forceOption deleteOptions) then ''-D'' else ''-d''),
                  branchName]
      in case (if truthy (remoteOption deleteOptions)
               then getBranches git parseIdentity platform repositoryPath [] options s
               else (Inr [], s)) of
           (Inl e, s1) \<Rightarrow> (Inl e, s1)
         | (Inr branches, s1) \<Rightarrow>
             (case await_git git args repositoryPath ''deleteBranch'' options s1 of
                (Inl e, s2) \<Rightarrow> (Inl e, s2)
              | (Inr _, s2) \<Rightarrow>
                  if truthy (remoteOption deleteOptions) \<and> length branches > 0 then
                    (case find_first (\<lambda>branch. stripHeads (name branch) = branchName) branches of
                       None \<Rightarrow> (Inr (), s2)
                     | Some branch \<Rightarrow>
                         (case branchRemote branch of
                            None \<Rightarrow> (Inr (), s2)
                          | Some r \<Rightarrow>
                              if r = [] then (Inr (), s2)
                              else
                                (case await_git git
                                        [''push'', r,
                                         '':'' @ interpolate (branchUpstreamWithoutRemote branch)]
                                        repositoryPath ''deleteRemoteBranch'' options s2 of
                                   (Inl e, s3) \<Rightarrow> (Inl e, s3)
                                 | (Inr _, s3) \<Rightarrow> (Inr (), s3))))
                  else (Inr (), s2)))"

subsection \<open>The output of the batch query\<close>

text \<open>
  The text that \<open>getBranches\<close> decodes is printed by \<open>git for-each-ref\<close>, which is not part of
  the repository. Its documented behaviour, for the constructs that \<open>forEachRefFormat\<close> uses:
  \<open>%(atom)\<close> is replaced by the value of the atom for the ref, \<open>%xx\<close> with two hexadecimal
  digits by the character of that code, \<open>%%\<close> by a percent sign, every other character is
  printed as it is, and a newline follows each ref.
\<close>

datatype FormatState = Plain | Percent | Hex char | Atom string

fun expandFormat :: "(string \<Rightarrow> string) \<Rightarrow> FormatState \<Rightarrow> string \<Rightarrow> string" where
  "expandFormat v st [] = []"
| "expandFormat v Plain (c # cs) =
     (if c = CHR ''%'' then expandFormat v Percent cs else c # expandFormat v Plain cs)"
| "expandFormat v Percent (c # cs) =
     (if c = CHR ''('' then expandFormat v (Atom []) cs
      else if c = CHR ''%'' then c # expandFormat v Plain cs
      else expandFormat v (Hex c) cs)"
| "expandFormat v (Hex h) (c # cs) = fromCharCode (parseInt16 [h, c]) # expandFormat v Plain cs"
| "expandFormat v (Atom a) (c # cs) =
     (if c = CHR '')'' then v a @ expandFormat v Plain cs
      else expandFormat v (Atom (a @ [c])) cs)"

text \<open>The eight values that git substitutes for one ref.\<close>

record RefFields =
  refname :: string
  refnameShort :: string
  upstreamShort :: string
  objectname :: string
  authorLine :: string
  parent :: string
  subject :: string
  bodyText :: string

definition atomValue :: "RefFields \<Rightarrow> string \<Rightarrow> string" where
  "atomValue r a =
     (if a = ''refname'' then refname r
      else if a = ''refname:short'' then refnameShort r
      else if a = ''upstream:short'' then upstreamShort r
      else if a = ''objectname'' then objectname r
      else if a = ''author'' then authorLine r
      else if a = ''parent'' then parent r
      else if a = ''subject'' then subject r
      else if a = ''body'' then bodyText r
      else [])"

definition fieldsOf :: "RefFields \<Rightarrow> string list" where
  "fieldsOf r =
     [refname r, refnameShort r, upstreamShort r, objectname r, authorLine r, parent r,
      subject r, bodyText r]"

definition emitRecord :: "RefFields \<Rightarrow> string" where
  "emitRecord r = expandFormat (atomValue r) Plain forEachRefFormat @ [CHR 0x0A]"

definition batchOutput :: "RefFields list \<Rightarrow> string" where
  "batchOutput rs = concat (map emitRecord rs)"

text \<open>
  A well-formed record: no field holds the field separator NUL or the delimiter, the
  assumption under which the format was chosen.
\<close>

definition cleanText :: "string \<Rightarrow> bool" where
  "cleanText f = (CHR 0x00 \<notin> set f \<and> delimiterString \<notin> set f)"

definition wellFormed :: "RefFields \<Rightarrow> bool" where
  "wellFormed r = list_all cleanText (fieldsOf r)"

text \<open>
  The record decoder inside \<open>getBranches\<close>: the pieces of every record of an output, before
  anything is reconstructed from them.
\<close>

fun piecesWithIndex :: "nat \<Rightarrow> string list \<Rightarrow> string list list" where
  "piecesWithIndex ix [] = []"
| "piecesWithIndex ix (line # lines) = piecesOf line ix # piecesWithIndex (Suc ix) lines"

definition decodeRecords :: "string \<Rightarrow> string list list" where
  "decodeRecords names = piecesWithIndex 0 (recordLines names)"

text \<open>The text of one record up to its delimiter: every field followed by NUL.\<close>

definition payload :: "RefFields \<Rightarrow> string" where
  "payload r = concat (map (\<lambda>f. f @ [CHR 0x00]) (fieldsOf r))"

subsection \<open>Branch data and its batch output\<close>

text \<open>
  The values git prints for a branch: local heads live under \<open>refs/heads/\<close>, remote-tracking
  refs under \<open>refs/remotes/\<close>, the parent hashes are separated by one space, and an absent
  upstream prints as the empty string. The author of the source data is the raw identity line.
\<close>

definition refFieldsOf :: "string Branch \<Rightarrow> RefFields" where
  "refFieldsOf b =
     \<lparr>refname = (if type b = Local then ''refs/heads/'' else ''refs/remotes/'') @ name b,
      refnameShort = name b,
      upstreamShort = (case upstream b of None \<Rightarrow> [] | Some u \<Rightarrow> u),
      objectname = sha (tip b),
      authorLine = author (tip b),
      parent = join '' '' (parentSHAs (tip b)),
      subject = (case summary (tip b) of None \<Rightarrow> [] | Some t \<Rightarrow> t),
      bodyText = (case body (tip b) of None \<Rightarrow> [] | Some t \<Rightarrow> t)\<rparr>"

definition validBranchData :: "string Branch \<Rightarrow> bool" where
  "validBranchData b =
     (name b \<noteq> [] \<and> cleanText (name b)
      \<and> (case upstream b of None \<Rightarrow> True | Some u \<Rightarrow> u \<noteq> [] \<and> cleanText u)
      \<and> cleanText (sha (tip b)) \<and> cleanText (author (tip b))
      \<and> list_all (\<lambda>p. cleanText p \<and> CHR '' '' \<notin> set p) (parentSHAs (tip b))
      \<and> (case summary (tip b) of None \<Rightarrow> False | Some t \<Rightarrow> cleanText t)
      \<and> (case body (tip b) of None \<Rightarrow> False | Some t \<Rightarrow> cleanText t))"

text \<open>The same branch with its identity line replaced by the parsed identity.\<close>

definition identified :: "(string \<Rightarrow> 'i) \<Rightarrow> string Branch \<Rightarrow> 'i Branch" where
  "identified ident b =
     \<lparr>name = name b, upstream = upstream b,
      tip = \<lparr>sha = sha (tip b), summary = summary (tip b), body = body (tip b),
             author = ident (author (tip b)), parentSHAs = parentSHAs (tip b)\<rparr>,
      type = type b\<rparr>"

subsection \<open>What a command issued\<close>

definition newInvocations :: "'w process \<Rightarrow> 'w process \<Rightarrow> string list list" where
  "newInvocations s s' = drop (length (issued s)) (issued s')"

definition pushIssued :: "'w process \<Rightarrow> 'w process \<Rightarrow> bool" where
  "pushIssued s s' = list_ex (\<lambda>args. take 1 args = [''push'']) (newInvocations s s')"

text \<open>The branches of a result of \<open>listBranch\<close>.\<close>

definition listed :: "'i Listing \<Rightarrow> 'i Branch list" where
  "listed l = (case l of Current None \<Rightarrow> [] | Current (Some b) \<Rightarrow> [b] | Branches bs \<Rightarrow> bs)"

subsection \<open>Concrete collaborators and inputs\<close>

text \<open>
  Stand-ins for the collaborators, to run the commands on concrete inputs. The identity
  parser throws on \<open>undefined\<close>, has no result for a line without \<open><\<close> and returns any other
  line as it is. The git process answers each invocation with the next prepared reply. The
  remote of a branch is the part of its upstream before the first slash, the upstream without
  remote the part after it.
\<close>

definition exampleParseIdentity :: "string option \<Rightarrow> error + string option" where
  "exampleParseIdentity v =
     (case v of
        None \<Rightarrow> Inl TypeError
      | Some line \<Rightarrow> Inr (if CHR ''<'' \<in> set line then Some line else None))"

definition scriptedGit :: "(unit, (error + IGitResult) list) git" where
  "scriptedGit args repositoryPath label options w =
     (case w of [] \<Rightarrow> (Inl (GitError ''no reply''), []) | r # rs \<Rightarrow> (r, rs))"

definition exampleRemote :: "string Branch \<Rightarrow> string option" where
  "exampleRemote b =
     (case upstream b of
        None \<Rightarrow> None
      | Some u \<Rightarrow> if CHR ''/'' \<in> set u then Some (takeWhile (\<lambda>c. c \<noteq> CHR ''/'') u) else None)"

definition exampleUpstreamWithoutRemote :: "string Branch \<Rightarrow> string option" where
  "exampleUpstreamWithoutRemote b =
     (case upstream b of
        None \<Rightarrow> None
      | Some u \<Rightarrow>
          if CHR ''/'' \<in> set u then Some (drop 1 (dropWhile (\<lambda>c. c \<noteq> CHR ''/'') u)) else None)"

definition replies :: "string list \<Rightarrow> (error + IGitResult) list process" where
  "replies outs = \<lparr>world = map (\<lambda>out. Inr \<lparr>stdout = out, exitCode = 0\<rparr>) outs, issued = []\<rparr>"

text \<open>The record of the specification's example, and the output it gives as the example.\<close>

definition mainRecord :: RefFields where
  "mainRecord =
     \<lparr>refname = ''refs/heads/main'', refnameShort = ''main'', upstreamShort = [],
      objectname = ''abc123'', authorLine = ''Jane <j@x.com> 1700000000 +0000'', parent = [],
      subject = ''Initial commit'', bodyText = []\<rparr>"

definition mainOutput :: string where
  "mainOutput =
     ''refs/heads/main'' @ [CHR 0x00] @ ''main'' @ [CHR 0x00] @ [CHR 0x00] @ ''abc123''
       @ [CHR 0x00] @ ''Jane <j@x.com> 1700000000 +0000'' @ [CHR 0x00] @ [CHR 0x00]
       @ ''Initial commit'' @ [CHR 0x00] @ [CHR 0x00] @ [CHR 0x1F, CHR 0x0A]"

text \<open>Two branches with one parent each: a local one that tracks the other, a remote one.\<close>

definition featureBranch :: "string Branch" where
  "featureBranch =
     \<lparr>name = ''feature'', upstream = Some ''origin/feature'',
      tip = \<lparr>sha = ''c0ffee'', summary = Some ''Add parser'',
             body = Some (''First line'' @ [CHR 0x0A] @ ''second line''),
             author = ''Ann <a@x.org> 1700000100 +0100'', parentSHAs = [''abc123'']\<rparr>,
      type = Local\<rparr>"

definition originFeature :: "string Branch" where
  "originFeature =
     \<lparr>name = ''origin/feature'', upstream = None,
      tip = \<lparr>sha = ''c0ffee'', summary = Some ''Add parser'', body = Some [],
             author = ''Ann <a@x.org> 1700000100 +0100'', parentSHAs = [''abc123'', ''def456'']\<rparr>,
      type = Remote\<rparr>"

text \<open>The batch output for the two branches, and variants of the example output.\<close>

definition twoBranchOutput :: string where
  "twoBranchOutput = batchOutput (map refFieldsOf [featureBranch, originFeature])"

text \<open>A record cut after its identity line (five pieces), and one cut after its parents (six).\<close>

definition fivePieceOutput :: string where
  "fivePieceOutput =
     ''refs/heads/main'' @ [CHR 0x00] @ ''main'' @ [CHR 0x00] @ [CHR 0x00] @ ''abc123''
       @ [CHR 0x00] @ ''Jane <j@x.com> 1700000000 +0000'' @ [CHR 0x1F, CHR 0x0A]"

definition sixPieceOutput :: string where
  "sixPieceOutput =
     ''refs/heads/main'' @ [CHR 0x00] @ ''main'' @ [CHR 0x00] @ [CHR 0x00] @ ''abc123''
       @ [CHR 0x00] @ ''Jane <j@x.com> 1700000000 +0000'' @ [CHR 0x00] @ ''def456''
       @ [CHR 0x1F, CHR 0x0A]"

text \<open>Two records, the second with an identity line that the parser does not accept.\<close>

definition badIdentityOutput :: string where
  "badIdentityOutput =
     mainOutput
       @ ''refs/heads/main'' @ [CHR 0x00] @ ''main'' @ [CHR 0x00] @ [CHR 0x00] @ ''abc123''
       @ [CHR 0x00] @ ''nobody'' @ [CHR 0x00] @ [CHR 0x00]
       @ ''Initial commit'' @ [CHR 0x00] @ [CHR 0x00] @ [CHR 0x1F, CHR 0x0A]"

text \<open>A record whose short ref name is empty.\<close>

definition namelessOutput :: string where
  "namelessOutput =
     ''refs/heads/main'' @ [CHR 0x00] @ [CHR 0x00] @ [CHR 0x00] @ ''abc123''
       @ [CHR 0x00] @ ''Jane <j@x.com> 1700000000 +0000'' @ [CHR 0x00] @ [CHR 0x00]
       @ ''Initial commit'' @ [CHR 0x00] @ [CHR 0x00] @ [CHR 0x1F, CHR 0x0A]"

text \<open>The batch output for the local branch alone.\<close>

definition trackingOutput :: string where
  "trackingOutput =
     ''refs/heads/feature'' @ [CHR 0x00] @ ''feature'' @ [CHR 0x00] @ ''origin/feature''
       @ [CHR 0x00] @ ''c0ffee'' @ [CHR 0x00] @ ''Ann <a@x.org> 1700000100 +0100''
       @ [CHR 0x00] @ ''abc123'' @ [CHR 0x00] @ ''Add parser'' @ [CHR 0x00]
       @ ''First line'' @ [CHR 0x0A] @ ''second line'' @ [CHR 0x00] @ [CHR 0x1F, CHR 0x0A]"

text \<open>
  A listing in which two branches have the name \<open>feature\<close> once \<open>heads/\<close> is stripped: the
  first has no upstream, the second is the local branch above, which tracks
  \<open>origin/feature\<close>.
\<close>

definition shadowedOutput :: string where
  "shadowedOutput =
     ''refs/heads/feature'' @ [CHR 0x00] @ ''heads/feature'' @ [CHR 0x00] @ [CHR 0x00]
       @ ''c0ffee'' @ [CHR 0x00] @ ''Ann <a@x.org> 1700000100 +0100''
       @ [CHR 0x00] @ ''abc123'' @ [CHR 0x00] @ ''Add parser'' @ [CHR 0x00]
       @ ''First line'' @ [CHR 0x0A] @ ''second line'' @ [CHR 0x00] @ [CHR 0x1F, CHR 0x0A]
       @ trackingOutput"

section \<open>Properties\<close>

subsection \<open>The constants of the format\<close>

lemma hex00: "fromCharCode (parseInt16 ''00'') = CHR 0x00"
  by code_simp

lemma hex1F: "fromCharCode (parseInt16 ''1F'') = CHR 0x1F"
  by code_simp

lemma delimiterString_eq: "delimiterString = CHR 0x1F"
  by (simp add: delimiterString_def delimiter_def hex1F)

lemma forEachRefFormat_eq:
  "forEachRefFormat =
     ''%(refname)%00%(refname:short)%00%(upstream:short)%00%(objectname)%00%(author)%00%(parent)%00%(subject)%00%(body)%00%1F''"
  by (simp add: forEachRefFormat_def delimiter_def)

lemma expandFormat_forEachRefFormat:
  "expandFormat (atomValue r) Plain forEachRefFormat =
     refname r @ CHR 0x00 # refnameShort r @ CHR 0x00 # upstreamShort r @ CHR 0x00
       # objectname r @ CHR 0x00 # authorLine r @ CHR 0x00 # parent r @ CHR 0x00
       # subject r @ CHR 0x00 # bodyText r @ [CHR 0x00, CHR 0x1F]"
  unfolding forEachRefFormat_eq
  by (simp add: hex00 hex1F atomValue_def)

subsection \<open>Splitting a string\<close>

lemma split_from_clean: "c \<notin> set x \<Longrightarrow> split_from c piece x = [piece @ x]"
  by (induction x arbitrary: piece) auto

lemma split_from_append:
  "c \<notin> set x \<Longrightarrow> split_from c piece (x @ c # rest) = (piece @ x) # split_from c [] rest"
  by (induction x arbitrary: piece) auto

lemma str_split_Nil: "str_split c [] = [[]]"
  by (simp add: str_split_def)

lemma str_split_clean: "c \<notin> set x \<Longrightarrow> str_split c x = [x]"
  by (simp add: str_split_def split_from_clean)

lemma str_split_append: "c \<notin> set x \<Longrightarrow> str_split c (x @ c # rest) = x # str_split c rest"
  by (simp add: str_split_def split_from_append)

lemma str_split_join_Cons:
  "c \<notin> set x \<Longrightarrow> \<forall>y\<in>set xs. c \<notin> set y \<Longrightarrow> str_split c (join [c] (x # xs)) = x # xs"
proof (induction xs arbitrary: x)
  case Nil
  then show ?case by (simp add: str_split_clean)
next
  case (Cons y ys)
  then show ?case by (simp add: str_split_append)
qed

lemma str_split_join:
  "xs \<noteq> [] \<Longrightarrow> \<forall>x\<in>set xs. c \<notin> set x \<Longrightarrow> str_split c (join [c] xs) = xs"
  by (cases xs) (simp_all add: str_split_join_Cons)

subsection \<open>The records of a batch output\<close>

lemma emitRecord_payload: "emitRecord r = payload r @ [delimiterString, CHR 0x0A]"
  by (simp add: emitRecord_def expandFormat_forEachRefFormat payload_def fieldsOf_def delimiterString_eq)

lemma payload_clean: "wellFormed r \<Longrightarrow> delimiterString \<notin> set (payload r)"
  by (auto simp: wellFormed_def payload_def list_all_iff cleanText_def delimiterString_eq)

lemma split_payload:
  "wellFormed r \<Longrightarrow> str_split (CHR 0x00) (payload r) = fieldsOf r @ [[]]"
  by (simp add: wellFormed_def payload_def fieldsOf_def cleanText_def str_split_append
      str_split_Nil)

lemma split_batch:
  "delimiterString \<notin> set pre \<Longrightarrow> \<forall>r\<in>set rs. wellFormed r \<Longrightarrow>
   str_split delimiterString (pre @ batchOutput rs) =
     (case rs of [] \<Rightarrow> [pre]
      | r # rs' \<Rightarrow> (pre @ payload r) # map (\<lambda>r. CHR 0x0A # payload r) rs' @ [[CHR 0x0A]])"
proof (induction rs arbitrary: pre)
  case Nil
  then show ?case by (simp add: batchOutput_def str_split_clean)
next
  case (Cons r rs)
  have nl: "delimiterString \<notin> set [CHR 0x0A]" by (simp add: delimiterString_eq)
  have clean: "delimiterString \<notin> set (pre @ payload r)"
    using Cons.prems by (simp add: payload_clean)
  have "pre @ batchOutput (r # rs) = (pre @ payload r) @ delimiterString # ([CHR 0x0A] @ batchOutput rs)"
    by (simp add: batchOutput_def emitRecord_payload)
  then have "str_split delimiterString (pre @ batchOutput (r # rs)) =
     (pre @ payload r) # str_split delimiterString ([CHR 0x0A] @ batchOutput rs)"
    using str_split_append[OF clean] by simp
  also have "str_split delimiterString ([CHR 0x0A] @ batchOutput rs) =
     map (\<lambda>r. CHR 0x0A # payload r) rs @ [[CHR 0x0A]]"
    using Cons.IH[OF nl] Cons.prems(2) by (cases rs) auto
  finally show ?case by simp
qed

lemma recordLines_batch:
  "\<forall>r\<in>set rs. wellFormed r \<Longrightarrow>
   recordLines (batchOutput rs) =
     (case rs of [] \<Rightarrow> [] | r # rs' \<Rightarrow> payload r # map (\<lambda>r. CHR 0x0A # payload r) rs')"
  using split_batch[of "[]" rs]
  by (simp add: recordLines_def butlast_append split: list.splits)

lemma piecesOf_first: "wellFormed r \<Longrightarrow> piecesOf (payload r) 0 = fieldsOf r @ [[]]"
  by (simp add: piecesOf_def split_payload)

lemma piecesOf_later: "wellFormed r \<Longrightarrow> piecesOf (CHR 0x0A # payload r) (Suc ix) = fieldsOf r @ [[]]"
  by (simp add: piecesOf_def split_payload)

lemma piecesWithIndex_later:
  "\<forall>r\<in>set rs. wellFormed r \<Longrightarrow>
   piecesWithIndex (Suc ix) (map (\<lambda>r. CHR 0x0A # payload r) rs) = map (\<lambda>r. fieldsOf r @ [[]]) rs"
  by (induction rs arbitrary: ix) (simp_all add: piecesOf_later)

lemma decodeRecords_batch:
  "\<forall>r\<in>set rs. wellFormed r \<Longrightarrow>
   decodeRecords (batchOutput rs) = map (\<lambda>r. fieldsOf r @ [[]]) rs"
  by (cases rs) (simp_all add: decodeRecords_def recordLines_batch piecesOf_first piecesWithIndex_later)

lemma wellFormed_mainRecord: "wellFormed mainRecord"
  by (simp add: wellFormed_def fieldsOf_def cleanText_def mainRecord_def delimiterString_eq)

lemma batchOutput_mainRecord: "batchOutput [mainRecord] = mainOutput"
  by (simp add: batchOutput_def emitRecord_payload payload_def fieldsOf_def mainRecord_def
      mainOutput_def delimiterString_eq)

text \<open>
  Claim C1, as the code has it. For every batch output that git prints for \<open>K\<close> well-formed
  records, the record decoder inside \<open>getBranches\<close> yields exactly \<open>K\<close> tuples, one per record
  and in their order. Each tuple has nine pieces, not eight: the eight fields, followed by one
  empty piece, because \<open>forEachRefFormat\<close> joins nine elements with \<open>%00\<close> and so puts a NUL
  between the body and the delimiter.
\<close>

theorem decoder_tuples:
  assumes "\<forall>r\<in>set rs. wellFormed r"
  shows "length (decodeRecords (batchOutput rs)) = length rs
       \<and> decodeRecords (batchOutput rs) = map (\<lambda>r. fieldsOf r @ [[]]) rs
       \<and> list_all (\<lambda>pieces. length pieces = 9) (decodeRecords (batchOutput rs))"
  using assms by (simp add: decodeRecords_batch list_all_iff fieldsOf_def)

theorem decoder_tuples_witness:
  "length (decodeRecords (batchOutput [mainRecord, refFieldsOf featureBranch])) = 2
   \<and> list_all (\<lambda>pieces. length pieces = 9)
        (decodeRecords (batchOutput [mainRecord, refFieldsOf featureBranch]))"
proof -
  have wf: "wellFormed (refFieldsOf featureBranch)"
    by (simp add: wellFormed_def fieldsOf_def cleanText_def refFieldsOf_def featureBranch_def
        delimiterString_eq)
  have "\<forall>r\<in>set [mainRecord, refFieldsOf featureBranch]. wellFormed r"
    using wf wellFormed_mainRecord by simp
  from decoder_tuples[OF this] show ?thesis by (simp add: fieldsOf_def)
qed

text \<open>
  The claim as written, eight fields per cleaned record, fails on the example output of the
  specification: its one record splits into nine pieces.
\<close>

theorem decoder_eight_fields_counterexample:
  "wellFormed mainRecord \<and> map length (decodeRecords (batchOutput [mainRecord])) = [9]
   \<and> map length (decodeRecords mainOutput) \<noteq> [8]"
  using decodeRecords_batch[of "[mainRecord]"] wellFormed_mainRecord
  by (simp add: fieldsOf_def batchOutput_mainRecord)

subsection \<open>Reconstructing a branch from the pieces of a record\<close>

lemma reconstruct_six:
  "reconstruct parseIdentity (ref # shortName # shortUpstream # objectName # authorIdentity # parents # rest) =
     (case parseIdentity (Some authorIdentity) of
        Inl e \<Rightarrow> Inl e
      | Inr None \<Rightarrow> Inl (Error (''Couldn't parse author identity '' @ authorIdentity @ ''.''))
      | Inr (Some identity) \<Rightarrow>
          Inr \<lparr>name = shortName,
               upstream = (if length shortUpstream > 0 then Some shortUpstream else None),
               tip = \<lparr>sha = objectName, summary = at rest 0, body = at rest 1,
                      author = identity, parentSHAs = str_split (CHR '' '') parents\<rparr>,
               type = (if startsWith ref ''refs/head'' then Local else Remote)\<rparr>)"
  by (simp add: reconstruct_def interpolate_def at_def[of _ 4] split: sum.splits option.splits)

lemma reconstruct_short:
  "length pieces < 6 \<Longrightarrow> \<exists>e. reconstruct parseIdentity pieces = Inl e"
  by (auto simp: reconstruct_def Let_def split: sum.splits option.splits list.splits)

lemma six_pieces:
  "\<not> length pieces < 6 \<Longrightarrow> \<exists>a b c d e f rest. pieces = a # b # c # d # e # f # rest"
  by (auto simp: not_less numeral_eq_Suc Suc_le_length_iff)

lemma reconstruct_Inr:
  assumes "reconstruct parseIdentity pieces = Inr b"
  obtains ref shortName shortUpstream objectName authorIdentity parents rest identity where
    "pieces = ref # shortName # shortUpstream # objectName # authorIdentity # parents # rest"
    "parseIdentity (Some authorIdentity) = Inr (Some identity)"
    "b = \<lparr>name = shortName,
          upstream = (if length shortUpstream > 0 then Some shortUpstream else None),
          tip = \<lparr>sha = objectName, summary = at rest 0, body = at rest 1,
                 author = identity, parentSHAs = str_split (CHR '' '') parents\<rparr>,
          type = (if startsWith ref ''refs/head'' then Local else Remote)\<rparr>"
proof -
  have "\<not> length pieces < 6"
    using assms reconstruct_short[of pieces parseIdentity] by auto
  then obtain ref shortName shortUpstream objectName authorIdentity parents rest where
    p: "pieces = ref # shortName # shortUpstream # objectName # authorIdentity # parents # rest"
    using six_pieces by blast
  from assms obtain identity where
    i: "parseIdentity (Some authorIdentity) = Inr (Some identity)"
    unfolding p reconstruct_six by (auto split: sum.splits option.splits)
  from assms have
    "b = \<lparr>name = shortName,
          upstream = (if length shortUpstream > 0 then Some shortUpstream else None),
          tip = \<lparr>sha = objectName, summary = at rest 0, body = at rest 1,
                 author = identity, parentSHAs = str_split (CHR '' '') parents\<rparr>,
          type = (if startsWith ref ''refs/head'' then Local else Remote)\<rparr>"
    unfolding p reconstruct_six i by simp
  with p i that show thesis by blast
qed

lemma reconstruct_no_identity:
  "parseIdentity (at pieces 4) = Inr None \<Longrightarrow> \<exists>e. reconstruct parseIdentity pieces = Inl e"
  by (simp add: reconstruct_def)

subsection \<open>Decoding a whole output\<close>

lemma mapWithIndex_Inr:
  "mapWithIndex (branchOfLine parseIdentity) ix lines = Inr bs \<Longrightarrow>
   list_all2 (\<lambda>pieces b. reconstruct parseIdentity pieces = Inr b) (piecesWithIndex ix lines) bs"
  by (induction lines arbitrary: ix bs) (auto simp: branchOfLine_def split: sum.splits)

lemma mapWithIndex_Inl:
  assumes "\<exists>pieces\<in>set (piecesWithIndex ix lines). \<exists>e. reconstruct parseIdentity pieces = Inl e"
  shows "\<exists>e. mapWithIndex (branchOfLine parseIdentity) ix lines = Inl e"
proof (cases "mapWithIndex (branchOfLine parseIdentity) ix lines")
  case (Inl e)
  then show ?thesis by blast
next
  case (Inr bs)
  from mapWithIndex_Inr[OF this]
  have "\<forall>pieces\<in>set (piecesWithIndex ix lines). \<exists>b. reconstruct parseIdentity pieces = Inr b"
    by (auto simp: list_all2_conv_all_nth in_set_conv_nth)
  with assms show ?thesis by auto
qed

lemma mapWithIndex_all_Inr:
  "list_all2 (\<lambda>pieces b. reconstruct parseIdentity pieces = Inr b) (piecesWithIndex ix lines) bs \<Longrightarrow>
   mapWithIndex (branchOfLine parseIdentity) ix lines = Inr bs"
  by (induction lines arbitrary: ix bs) (auto simp: branchOfLine_def list_all2_Cons1)

lemma decodeBranches_Inr:
  assumes "decodeBranches parseIdentity platform names = Inr branches"
  shows "list_all2 (\<lambda>pieces b. reconstruct parseIdentity pieces = Inr b)
           (decodeRecords names) (if platform = ''darwin'' then rev branches else branches)"
  using assms
  by (auto simp: decodeBranches_def decodeRecords_def split: sum.splits if_splits
      dest: mapWithIndex_Inr)

lemma decodeBranches_Inl:
  "\<exists>pieces\<in>set (decodeRecords names). \<exists>e. reconstruct parseIdentity pieces = Inl e \<Longrightarrow>
   \<exists>e. decodeBranches parseIdentity platform names = Inl e"
  using mapWithIndex_Inl[of 0 "recordLines names" parseIdentity]
  by (auto simp: decodeBranches_def decodeRecords_def)

lemma decodeBranches_all_Inr:
  "list_all2 (\<lambda>pieces b. reconstruct parseIdentity pieces = Inr b) (decodeRecords names) bs \<Longrightarrow>
   decodeBranches parseIdentity platform names = Inr (if platform = ''darwin'' then rev bs else bs)"
  by (simp add: decodeBranches_def decodeRecords_def mapWithIndex_all_Inr)

lemma classification_tested_prefix:
  assumes "decodeBranches parseIdentity platform names = Inr branches"
  shows "list_all2 (\<lambda>pieces b. (type b = Local) = startsWith (hd pieces) ''refs/head''
                             \<and> (type b = Remote) = (\<not> startsWith (hd pieces) ''refs/head''))
           (decodeRecords names) (if platform = ''darwin'' then rev branches else branches)"
  by (rule list_all2_mono[OF decodeBranches_Inr[OF assms]])
     (auto elim!: reconstruct_Inr split: if_splits)

lemma startsWith_shorter: "startsWith s (p @ q) \<Longrightarrow> startsWith s p"
proof -
  assume "startsWith s (p @ q)"
  then have "take (length (p @ q)) s = p @ q" by (simp only: startsWith_def)
  then have "take (length p) (take (length (p @ q)) s) = take (length p) (p @ q)"
    by (rule arg_cong)
  then show ?thesis by (simp add: startsWith_def min_def)
qed

lemma startsWith_heads: "startsWith ref ''refs/heads/'' \<Longrightarrow> startsWith ref ''refs/head''"
  using startsWith_shorter[of ref "''refs/head''" "''s/''"] by simp

lemma startsWith_remotes: "startsWith ref ''refs/remotes/'' \<Longrightarrow> \<not> startsWith ref ''refs/head''"
proof
  assume "startsWith ref ''refs/remotes/''"
  then have "startsWith ref ''refs/remo''"
    using startsWith_shorter[of ref "''refs/remo''" "''tes/''"] by simp
  moreover assume "startsWith ref ''refs/head''"
  ultimately show False by (simp add: startsWith_def)
qed

lemma requested_prefix:
  "inRequestedNamespace ref \<Longrightarrow> startsWith ref ''refs/head'' = startsWith ref ''refs/heads/''"
  using startsWith_heads startsWith_remotes by (auto simp: inRequestedNamespace_def)

text \<open>
  Claim C4. For every decoded record of an output that the batch query can print, where each
  full ref path lies under \<open>refs/heads/\<close> or \<open>refs/remotes/\<close>, the branch is Local if and
  only if the first piece, the full ref path, begins with \<open>refs/heads/\<close>, and every record
  whose path does not begin with that prefix is Remote. The branches are compared with the
  records in the order of the output, which on \<open>darwin\<close> is the reverse of the returned list.
  The code tests the shorter prefix \<open>refs/head\<close>, which on these paths decides the same.
\<close>

theorem classification_local_heads:
  assumes "decodeBranches parseIdentity platform names = Inr branches"
    and "\<forall>pieces\<in>set (decodeRecords names). inRequestedNamespace (hd pieces)"
  shows "list_all2 (\<lambda>pieces b. (type b = Local) = startsWith (hd pieces) ''refs/heads/''
                             \<and> (\<not> startsWith (hd pieces) ''refs/heads/'' \<longrightarrow> type b = Remote))
           (decodeRecords names) (if platform = ''darwin'' then rev branches else branches)"
proof (rule list.rel_mono_strong[OF classification_tested_prefix[OF assms(1)]])
  fix pieces and b :: "'a Branch"
  assume "pieces \<in> set (decodeRecords names)"
    and tested: "(type b = Local) = startsWith (hd pieces) ''refs/head''
      \<and> (type b = Remote) = (\<not> startsWith (hd pieces) ''refs/head'')"
  with assms(2) have "startsWith (hd pieces) ''refs/head'' = startsWith (hd pieces) ''refs/heads/''"
    by (simp add: requested_prefix)
  with tested show "(type b = Local) = startsWith (hd pieces) ''refs/heads/''
      \<and> (\<not> startsWith (hd pieces) ''refs/heads/'' \<longrightarrow> type b = Remote)"
    by simp
qed

text \<open>
  Claim C8. For every decoded record the upstream of the branch is present if and only if the
  third piece, the short upstream name, is a non-empty string, and when present it is that
  piece.
\<close>

theorem upstream_presence:
  assumes "decodeBranches parseIdentity platform names = Inr branches"
  shows "list_all2 (\<lambda>pieces b. (upstream b \<noteq> None) = (\<exists>u. at pieces 2 = Some u \<and> u \<noteq> [])
                             \<and> (\<forall>u. upstream b = Some u \<longrightarrow> at pieces 2 = Some u))
           (decodeRecords names) (if platform = ''darwin'' then rev branches else branches)"
  by (rule list_all2_mono[OF decodeBranches_Inr[OF assms]])
     (auto elim!: reconstruct_Inr simp: at_def split: if_splits)

subsection \<open>Running the decoder on concrete outputs\<close>

lemmas decode_eval =
  decodeBranches_def branchOfLine_def reconstruct_def at_def startsWith_def
  interpolate_def recordLines_def delimiterString_eq str_split_def piecesOf_def

text \<open>
  Claim C7, evaluated. The example output of the specification decodes to one branch that is
  Local, named \<open>main\<close>, without upstream, with hash \<open>abc123\<close> and summary
  \<open>Initial commit\<close>; but its parent list is not empty: it holds one element, the empty
  string, because \<open>.split()\<close> is \<open>[]\<close>. This holds on every platform and for every
  identity parser that accepts the identity line.
\<close>

theorem example_parent_list:
  assumes "parseIdentity (Some ''Jane <j@x.com> 1700000000 +0000'') = Inr (Some identity)"
  shows "decodeBranches parseIdentity platform mainOutput =
    Inr [\<lparr>name = ''main'', upstream = None,
        tip = \<lparr>sha = ''abc123'', summary = Some ''Initial commit'', body = Some [],
               author = identity, parentSHAs = [[]]\<rparr>,
        type = Local\<rparr>]"
  using assms by (simp add: decode_eval mainOutput_def)

subsection \<open>The listing operations\<close>

lemma getBranches_result:
  "await_git git (forEachRefArgs prefixes) repositoryPath ''getBranches'' options s = (Inr result, s')
   \<Longrightarrow> getBranches git parseIdentity platform repositoryPath prefixes options s =
         (decodeBranches parseIdentity platform (stdout result), s')"
  by (simp add: getBranches_def)

lemma getBranches_Inr:
  assumes "getBranches git parseIdentity platform repositoryPath prefixes options s = (Inr branches, s')"
  obtains result where
    "await_git git (forEachRefArgs prefixes) repositoryPath ''getBranches'' options s = (Inr result, s')"
    "decodeBranches parseIdentity platform (stdout result) = Inr branches"
  using assms by (auto simp: getBranches_def split: prod.splits sum.splits)

lemma issued_await_git:
  "issued (snd (await_git git args repositoryPath label options s)) = issued s @ [args]"
  by (simp add: await_git_def split: prod.splits)

lemma issued_getBranches:
  "issued (snd (getBranches git parseIdentity platform repositoryPath prefixes options s)) =
     issued s @ [forEachRefArgs prefixes]"
  using issued_await_git[of git "forEachRefArgs prefixes" repositoryPath "''getBranches''" options s]
  by (auto simp: getBranches_def split: prod.splits sum.splits)

lemma listBranch_fails:
  "getBranches git parseIdentity platform repositoryPath [] options s = (Inl e, s') \<Longrightarrow>
   listType \<noteq> ListCurrent \<Longrightarrow>
   listBranch git parseIdentity platform repositoryPath listType options s = (Inl e, s')"
  by (simp add: listBranch_def)

lemma decodeBranches_member:
  assumes "decodeBranches parseIdentity platform names = Inr branches" and "b \<in> set branches"
  shows "\<exists>pieces\<in>set (decodeRecords names). reconstruct parseIdentity pieces = Inr b"
proof -
  let ?bs = "if platform = ''darwin'' then rev branches else branches"
  have "b \<in> set ?bs" using assms(2) by simp
  then obtain k where k: "k < length ?bs" "?bs ! k = b"
    by (meson in_set_conv_nth)
  from decodeBranches_Inr[OF assms(1)]
  have "length (decodeRecords names) = length ?bs"
    and "reconstruct parseIdentity (decodeRecords names ! k) = Inr (?bs ! k)"
    using k(1) by (auto simp only: list_all2_conv_all_nth)
  with k show ?thesis by (metis nth_mem)
qed

text \<open>
  Claim C5, as the code has it. The code never counts the pieces of a record. When the batch
  query returns an output in which some record splits into fewer than six pieces, the read
  of \<open>pieces[5].split\<close> (or the identity parser before it) throws: \<open>getBranches\<close> fails,
  and with it every listing of local, remote or all branches; no list is returned. Records of
  six or more pieces pass: a missing summary or body stays \<open>undefined\<close>, and pieces after
  the eighth are ignored.
\<close>

theorem short_record_fails:
  assumes "await_git git (forEachRefArgs prefixes) repositoryPath ''getBranches'' options s
             = (Inr result, s')"
    and "\<exists>pieces\<in>set (decodeRecords (stdout result)). length pieces < 6"
  shows "\<exists>e. getBranches git parseIdentity platform repositoryPath prefixes options s = (Inl e, s')
           \<and> (prefixes = [] \<longrightarrow> listType \<noteq> ListCurrent \<longrightarrow>
                listBranch git parseIdentity platform repositoryPath listType options s = (Inl e, s'))"
proof -
  from assms(2) have "\<exists>pieces\<in>set (decodeRecords (stdout result)).
      \<exists>e. reconstruct parseIdentity pieces = Inl e"
    using reconstruct_short by blast
  then obtain e where "decodeBranches parseIdentity platform (stdout result) = Inl e"
    using decodeBranches_Inl by blast
  then have "getBranches git parseIdentity platform repositoryPath prefixes options s = (Inl e, s')"
    using getBranches_result[OF assms(1), of parseIdentity platform] by simp
  then show ?thesis using listBranch_fails by blast
qed

text \<open>
  Claim C6. When the identity parser has no result for the identity piece (\<open>pieces[4]\<close>) of
  some record of the batch output, \<open>getBranches\<close> fails with an error, and so does every
  listing of local, remote or all branches: no list holding the other records is returned.
\<close>

theorem unparsed_identity_fails:
  assumes "await_git git (forEachRefArgs prefixes) repositoryPath ''getBranches'' options s
             = (Inr result, s')"
    and "\<exists>pieces\<in>set (decodeRecords (stdout result)). parseIdentity (at pieces 4) = Inr None"
  shows "\<exists>e. getBranches git parseIdentity platform repositoryPath prefixes options s = (Inl e, s')
           \<and> (prefixes = [] \<longrightarrow> listType \<noteq> ListCurrent \<longrightarrow>
                listBranch git parseIdentity platform repositoryPath listType options s = (Inl e, s'))"
proof -
  from assms(2) have "\<exists>pieces\<in>set (decodeRecords (stdout result)).
      \<exists>e. reconstruct parseIdentity pieces = Inl e"
    using reconstruct_no_identity by blast
  then obtain e where "decodeBranches parseIdentity platform (stdout result) = Inl e"
    using decodeBranches_Inl by blast
  then have "getBranches git parseIdentity platform repositoryPath prefixes options s = (Inl e, s')"
    using getBranches_result[OF assms(1), of parseIdentity platform] by simp
  then show ?thesis using listBranch_fails by blast
qed

lemma listBranch_listed:
  assumes "listBranch git parseIdentity platform repositoryPath listType options s = (Inr l, s')"
    and "b \<in> set (listed l)"
  shows "\<exists>prefixes s0 branches.
           getBranches git parseIdentity platform repositoryPath prefixes options s0 = (Inr branches, s')
           \<and> b \<in> set branches"
proof (cases "listType = ListCurrent")
  case True
  with assms obtain prefixes s0 rest where
    "getBranches git parseIdentity platform repositoryPath prefixes options s0 = (Inr (b # rest), s')"
    by (auto simp: listBranch_def listed_def shift_def Let_def
        split: prod.splits sum.splits if_splits list.splits)
  moreover have "b \<in> set (b # rest)" by simp
  ultimately show ?thesis by blast
next
  case False
  with assms obtain branches where
    "getBranches git parseIdentity platform repositoryPath [] options s = (Inr branches, s')"
    "b \<in> set branches"
    by (cases listType) (auto simp: listBranch_def listed_def split: prod.splits sum.splits)
  then show ?thesis by blast
qed

text \<open>
  Claim C9, as the code has it. Every branch that a listing operation returns, for each of
  the four types, was reconstructed from one record of the output of a batch query, and that
  record has at least six pieces: the name is the second piece, unchecked, so it is empty
  exactly when that piece is empty; the hash is the fourth piece, the author is the identity
  the parser returned for the fifth, the parent list is split from the sixth, and summary and
  body are the seventh and eighth pieces, \<open>undefined\<close> when the record is shorter.
\<close>

theorem listed_branch_origin:
  assumes "listBranch git parseIdentity platform repositoryPath listType options s = (Inr l, s')"
    and "b \<in> set (listed l)"
  shows "\<exists>prefixes s0 result pieces.
           await_git git (forEachRefArgs prefixes) repositoryPath ''getBranches'' options s0
             = (Inr result, s')
           \<and> pieces \<in> set (decodeRecords (stdout result))
           \<and> 6 \<le> length pieces
           \<and> name b = pieces ! 1
           \<and> sha (tip b) = pieces ! 3
           \<and> parseIdentity (Some (pieces ! 4)) = Inr (Some (author (tip b)))
           \<and> parentSHAs (tip b) = str_split (CHR '' '') (pieces ! 5)
           \<and> summary (tip b) = at pieces 6
           \<and> body (tip b) = at pieces 7"
proof -
  from listBranch_listed[OF assms] obtain prefixes s0 branches where
    g: "getBranches git parseIdentity platform repositoryPath prefixes options s0 = (Inr branches, s')"
    and b: "b \<in> set branches" by blast
  from g obtain result where
    r: "await_git git (forEachRefArgs prefixes) repositoryPath ''getBranches'' options s0
          = (Inr result, s')"
    and d: "decodeBranches parseIdentity platform (stdout result) = Inr branches"
    by (rule getBranches_Inr)
  from decodeBranches_member[OF d b] obtain pieces where
    p: "pieces \<in> set (decodeRecords (stdout result))"
    and rc: "reconstruct parseIdentity pieces = Inr b" by blast
  from rc have "6 \<le> length pieces \<and> name b = pieces ! 1 \<and> sha (tip b) = pieces ! 3
      \<and> parseIdentity (Some (pieces ! 4)) = Inr (Some (author (tip b)))
      \<and> parentSHAs (tip b) = str_split (CHR '' '') (pieces ! 5)
      \<and> summary (tip b) = at pieces 6 \<and> body (tip b) = at pieces 7"
    by (rule reconstruct_Inr) (simp add: at_def)
  with r p show ?thesis by blast
qed

lemmas output_eval =
  batchOutput_def emitRecord_payload payload_def fieldsOf_def refFieldsOf_def
  featureBranch_def originFeature_def mainRecord_def

lemma decode_twoBranchOutput:
  "decodeBranches exampleParseIdentity ''linux'' twoBranchOutput = Inr [featureBranch, originFeature]"
  by (simp add: twoBranchOutput_def output_eval decode_eval exampleParseIdentity_def)

lemma records_twoBranchOutput:
  "decodeRecords twoBranchOutput =
     [[''refs/heads/feature'', ''feature'', ''origin/feature'', ''c0ffee'',
       ''Ann <a@x.org> 1700000100 +0100'', ''abc123'', ''Add parser'',
       ''First line'' @ [CHR 0x0A] @ ''second line'', []],
      [''refs/remotes/origin/feature'', ''origin/feature'', [], ''c0ffee'',
       ''Ann <a@x.org> 1700000100 +0100'', ''abc123 def456'', ''Add parser'', [], []]]"
  by (simp add: twoBranchOutput_def output_eval decodeRecords_def decode_eval)

theorem classification_local_heads_witness:
  "decodeBranches exampleParseIdentity ''linux'' twoBranchOutput = Inr [featureBranch, originFeature]
   \<and> map hd (decodeRecords twoBranchOutput)
       = [''refs/heads/feature'', ''refs/remotes/origin/feature'']
   \<and> inRequestedNamespace ''refs/heads/feature''
   \<and> inRequestedNamespace ''refs/remotes/origin/feature''
   \<and> type featureBranch = Local \<and> startsWith ''refs/heads/feature'' ''refs/heads/''
   \<and> type originFeature = Remote \<and> \<not> startsWith ''refs/remotes/origin/feature'' ''refs/heads/''"
proof -
  have requested: "\<forall>pieces\<in>set (decodeRecords twoBranchOutput). inRequestedNamespace (hd pieces)"
    by (simp add: records_twoBranchOutput inRequestedNamespace_def startsWith_def)
  from classification_local_heads[OF decode_twoBranchOutput requested]
  show ?thesis
    using decode_twoBranchOutput
    by (simp add: records_twoBranchOutput inRequestedNamespace_def startsWith_def
        featureBranch_def originFeature_def)
qed

theorem upstream_presence_witness:
  "decodeBranches exampleParseIdentity ''linux'' twoBranchOutput = Inr [featureBranch, originFeature]
   \<and> upstream featureBranch = Some ''origin/feature''
   \<and> at (decodeRecords twoBranchOutput ! 0) 2 = Some ''origin/feature''
   \<and> upstream originFeature = None
   \<and> at (decodeRecords twoBranchOutput ! 1) 2 = Some []"
  using upstream_presence[OF decode_twoBranchOutput] decode_twoBranchOutput
  by (simp add: records_twoBranchOutput at_def featureBranch_def originFeature_def)

theorem example_parent_list_witness:
  "decodeBranches exampleParseIdentity ''darwin'' mainOutput =
    Inr [\<lparr>name = ''main'', upstream = None,
        tip = \<lparr>sha = ''abc123'', summary = Some ''Initial commit'', body = Some [],
               author = ''Jane <j@x.com> 1700000000 +0000'', parentSHAs = [[]]\<rparr>,
        type = Local\<rparr>]"
  by (rule example_parent_list) (simp add: exampleParseIdentity_def)

lemma scripted_getBranches:
  "await_git scriptedGit (forEachRefArgs prefixes) repositoryPath ''getBranches'' options
     (replies [out]) =
   (Inr \<lparr>stdout = out, exitCode = 0\<rparr>, \<lparr>world = [], issued = [forEachRefArgs prefixes]\<rparr>)"
  by (simp add: await_git_def scriptedGit_def replies_def)

theorem short_record_fails_witness:
  "map length (decodeRecords fivePieceOutput) = [5]
   \<and> getBranches scriptedGit exampleParseIdentity ''linux'' ''/repo'' [] None
         (replies [fivePieceOutput])
       = (Inl TypeError, \<lparr>world = [], issued = [forEachRefArgs []]\<rparr>)
   \<and> listBranch scriptedGit exampleParseIdentity ''linux'' ''/repo'' ListAll None
         (replies [fivePieceOutput])
       = (Inl TypeError, \<lparr>world = [], issued = [forEachRefArgs []]\<rparr>)"
proof -
  note git = scripted_getBranches[of "[]" "''/repo''" None fivePieceOutput]
  have records: "decodeRecords fivePieceOutput =
      [[''refs/heads/main'', ''main'', [], ''abc123'', ''Jane <j@x.com> 1700000000 +0000'']]"
    by (simp add: fivePieceOutput_def decodeRecords_def decode_eval)
  have short: "\<exists>pieces\<in>set (decodeRecords (stdout \<lparr>stdout = fivePieceOutput, exitCode = 0\<rparr>)).
      length pieces < 6"
    by (simp add: records)
  have run: "decodeBranches exampleParseIdentity ''linux'' fivePieceOutput = Inl TypeError"
    by (simp add: fivePieceOutput_def decode_eval exampleParseIdentity_def)
  from short_record_fails[OF git short, where parseIdentity = exampleParseIdentity
      and platform = "''linux''" and listType = ListAll]
  show ?thesis
    by (simp add: records getBranches_result[OF git] run)
qed

text \<open>
  The claim as written fails: a record of six pieces is decoded into a branch whose summary
  and body are \<open>undefined\<close>, and the listing returns it.
\<close>

theorem field_count_counterexample:
  "map length (decodeRecords sixPieceOutput) = [6]
   \<and> listBranch scriptedGit exampleParseIdentity ''linux'' ''/repo'' ListAll None
         (replies [sixPieceOutput])
       = (Inr (Branches
            [\<lparr>name = ''main'', upstream = None,
              tip = \<lparr>sha = ''abc123'', summary = None, body = None,
                     author = ''Jane <j@x.com> 1700000000 +0000'', parentSHAs = [''def456'']\<rparr>,
              type = Local\<rparr>]),
          \<lparr>world = [], issued = [forEachRefArgs []]\<rparr>)"
proof -
  have run: "decodeBranches exampleParseIdentity ''linux'' sixPieceOutput =
      Inr [\<lparr>name = ''main'', upstream = None,
              tip = \<lparr>sha = ''abc123'', summary = None, body = None,
                     author = ''Jane <j@x.com> 1700000000 +0000'', parentSHAs = [''def456'']\<rparr>,
              type = Local\<rparr>]"
    by (simp add: sixPieceOutput_def decode_eval exampleParseIdentity_def)
  have records: "map length (decodeRecords sixPieceOutput) = [6]"
    by (simp add: sixPieceOutput_def decodeRecords_def decode_eval)
  show ?thesis
    by (simp add: records listBranch_def getBranches_result[OF scripted_getBranches] run)
qed

theorem unparsed_identity_fails_witness:
  "map (\<lambda>pieces. exampleParseIdentity (at pieces 4)) (decodeRecords badIdentityOutput)
     = [Inr (Some ''Jane <j@x.com> 1700000000 +0000''), Inr None]
   \<and> getBranches scriptedGit exampleParseIdentity ''linux'' ''/repo'' [] None
         (replies [badIdentityOutput])
       = (Inl (Error ''Couldn't parse author identity nobody.''),
          \<lparr>world = [], issued = [forEachRefArgs []]\<rparr>)
   \<and> listBranch scriptedGit exampleParseIdentity ''linux'' ''/repo'' ListLocal None
         (replies [badIdentityOutput])
       = (Inl (Error ''Couldn't parse author identity nobody.''),
          \<lparr>world = [], issued = [forEachRefArgs []]\<rparr>)"
proof -
  note git = scripted_getBranches[of "[]" "''/repo''" None badIdentityOutput]
  have records: "decodeRecords badIdentityOutput =
      [[''refs/heads/main'', ''main'', [], ''abc123'', ''Jane <j@x.com> 1700000000 +0000'', [],
        ''Initial commit'', [], []],
       [''refs/heads/main'', ''main'', [], ''abc123'', ''nobody'', [],
        ''Initial commit'', [], []]]"
    by (simp add: badIdentityOutput_def mainOutput_def decodeRecords_def decode_eval)
  have parsed: "map (\<lambda>pieces. exampleParseIdentity (at pieces 4)) (decodeRecords badIdentityOutput)
      = [Inr (Some ''Jane <j@x.com> 1700000000 +0000''), Inr None]"
    by (simp add: records at_def exampleParseIdentity_def)
  then have bad: "\<exists>pieces\<in>set (decodeRecords (stdout \<lparr>stdout = badIdentityOutput, exitCode = 0\<rparr>)).
      exampleParseIdentity (at pieces 4) = Inr None"
    by (simp add: records)
  have run: "decodeBranches exampleParseIdentity ''linux'' badIdentityOutput
      = Inl (Error ''Couldn't parse author identity nobody.'')"
    by (simp add: badIdentityOutput_def mainOutput_def decode_eval exampleParseIdentity_def)
  from unparsed_identity_fails[OF git bad, where platform = "''linux''" and listType = ListLocal]
  have "listBranch scriptedGit exampleParseIdentity ''linux'' ''/repo'' ListLocal None
         (replies [badIdentityOutput])
       = (Inl (Error ''Couldn't parse author identity nobody.''),
          \<lparr>world = [], issued = [forEachRefArgs []]\<rparr>)"
    by (simp add: getBranches_result[OF git] run)
  then show ?thesis
    using parsed by (simp add: getBranches_result[OF git] run)
qed

lemma listBranch_local_twoBranchOutput:
  "listBranch scriptedGit exampleParseIdentity ''linux'' ''/repo'' ListLocal None
     (replies [twoBranchOutput])
   = (Inr (Branches [featureBranch]), \<lparr>world = [], issued = [forEachRefArgs []]\<rparr>)"
  by (simp add: listBranch_def getBranches_result[OF scripted_getBranches]
      decode_twoBranchOutput featureBranch_def originFeature_def)

theorem listed_branch_origin_witness:
  "listBranch scriptedGit exampleParseIdentity ''linux'' ''/repo'' ListLocal None
     (replies [twoBranchOutput])
   = (Inr (Branches [featureBranch]), \<lparr>world = [], issued = [forEachRefArgs []]\<rparr>)
   \<and> (\<exists>prefixes s0 result pieces.
        await_git scriptedGit (forEachRefArgs prefixes) ''/repo'' ''getBranches'' None s0
          = (Inr result, \<lparr>world = [], issued = [forEachRefArgs []]\<rparr>)
        \<and> pieces \<in> set (decodeRecords (stdout result))
        \<and> 6 \<le> length pieces
        \<and> name featureBranch = pieces ! 1
        \<and> sha (tip featureBranch) = pieces ! 3
        \<and> exampleParseIdentity (Some (pieces ! 4)) = Inr (Some (author (tip featureBranch)))
        \<and> parentSHAs (tip featureBranch) = str_split (CHR '' '') (pieces ! 5)
        \<and> summary (tip featureBranch) = at pieces 6
        \<and> body (tip featureBranch) = at pieces 7)"
proof -
  have "featureBranch \<in> set (listed (Branches [featureBranch]))"
    by (simp add: listed_def)
  from listed_branch_origin[OF listBranch_local_twoBranchOutput this]
  show ?thesis using listBranch_local_twoBranchOutput by simp
qed

text \<open>
  The claim as written fails: a record whose second piece is empty gives a branch with the
  empty name, and the listing returns it.
\<close>

theorem empty_name_counterexample:
  "map (\<lambda>pieces. pieces ! 1) (decodeRecords namelessOutput) = [[]]
   \<and> listBranch scriptedGit exampleParseIdentity ''linux'' ''/repo'' ListAll None
         (replies [namelessOutput])
       = (Inr (Branches
            [\<lparr>name = [], upstream = None,
              tip = \<lparr>sha = ''abc123'', summary = Some ''Initial commit'', body = Some [],
                     author = ''Jane <j@x.com> 1700000000 +0000'', parentSHAs = [[]]\<rparr>,
              type = Local\<rparr>]),
          \<lparr>world = [], issued = [forEachRefArgs []]\<rparr>)"
proof -
  have run: "decodeBranches exampleParseIdentity ''linux'' namelessOutput =
      Inr [\<lparr>name = [], upstream = None,
              tip = \<lparr>sha = ''abc123'', summary = Some ''Initial commit'', body = Some [],
                     author = ''Jane <j@x.com> 1700000000 +0000'', parentSHAs = [[]]\<rparr>,
              type = Local\<rparr>]"
    by (simp add: namelessOutput_def decode_eval exampleParseIdentity_def)
  have records: "map (\<lambda>pieces. pieces ! 1) (decodeRecords namelessOutput) = [[]]"
    by (simp add: namelessOutput_def decodeRecords_def decode_eval)
  show ?thesis
    using records
    by (simp add: listBranch_def getBranches_result[OF scripted_getBranches] run)
qed

subsection \<open>The invocations of a command\<close>

lemma issued_await_gitD:
  "await_git git args repositoryPath label options s = (r, s') \<Longrightarrow> issued s' = issued s @ [args]"
  using issued_await_git[of git args repositoryPath label options s] by simp

lemma issued_getBranchesD:
  "getBranches git parseIdentity platform repositoryPath prefixes options s = (r, s') \<Longrightarrow>
   issued s' = issued s @ [forEachRefArgs prefixes]"
  using issued_getBranches[of git parseIdentity platform repositoryPath prefixes options s] by simp

subsection \<open>The current branch\<close>

text \<open>
  Claim C3. When the query for HEAD returns with exit code 1 or 128, \<open>listBranch\<close> with type
  \<open>'current'\<close> returns \<open>undefined\<close>, not an error, and issues nothing further. When it
  returns with exit code 0 and the trimmed output is \<open>heads/\<close> followed by a name, the
  prefix is stripped: the result is the first branch of \<open>getBranches\<close> restricted to
  \<open>refs/heads/\<close> followed by that name, and the second invocation is the batch query with
  exactly that ref as its last argument.
\<close>

theorem current_branch_resolution:
  assumes "await_git git [''rev-parse'', ''--abbrev-ref'', ''HEAD''] repositoryPath
             ''getCurrentBranch''
             (Some \<lparr>successExitCodes = Some {0, 1, 128},
                    others = (case options of None \<Rightarrow> None | Some opt \<Rightarrow> others opt)\<rparr>) s
           = (Inr result, s1)"
  shows "(exitCode result = 1 \<or> exitCode result = 128 \<longrightarrow>
            listBranch git parseIdentity platform repositoryPath ListCurrent options s
              = (Inr (Current None), s1))
       \<and> (exitCode result = 0 \<and> trim (stdout result) = ''heads/'' @ branchName \<longrightarrow>
            listBranch git parseIdentity platform repositoryPath ListCurrent options s
              = (case getBranches git parseIdentity platform repositoryPath
                        [''refs/heads/'' @ branchName] options s1 of
                   (Inl e, s2) \<Rightarrow> (Inl e, s2)
                 | (Inr branches, s2) \<Rightarrow> (Inr (Current (shift branches)), s2))
            \<and> issued (snd (listBranch git parseIdentity platform repositoryPath ListCurrent
                              options s))
                = issued s @ [[''rev-parse'', ''--abbrev-ref'', ''HEAD''],
                              [''for-each-ref'', ''--format='' @ forEachRefFormat,
                               ''--sort=-committerdate'', ''refs/heads/'' @ branchName]])"
proof (intro conjI impI)
  assume "exitCode result = 1 \<or> exitCode result = 128"
  then show "listBranch git parseIdentity platform repositoryPath ListCurrent options s
      = (Inr (Current None), s1)"
    using assms by (auto simp: listBranch_def)
next
  assume a: "exitCode result = 0 \<and> trim (stdout result) = ''heads/'' @ branchName"
  show l: "listBranch git parseIdentity platform repositoryPath ListCurrent options s
      = (case getBranches git parseIdentity platform repositoryPath
                [''refs/heads/'' @ branchName] options s1 of
           (Inl e, s2) \<Rightarrow> (Inl e, s2)
         | (Inr branches, s2) \<Rightarrow> (Inr (Current (shift branches)), s2))"
    using assms a by (simp add: listBranch_def stripHeads_def startsWith_def)
  have "issued (snd (listBranch git parseIdentity platform repositoryPath ListCurrent options s))
      = issued (snd (getBranches git parseIdentity platform repositoryPath
                [''refs/heads/'' @ branchName] options s1))"
    unfolding l by (simp split: prod.splits sum.splits)
  also have "\<dots> = issued s1 @ [forEachRefArgs [''refs/heads/'' @ branchName]]"
    by (rule issued_getBranches)
  also have "issued s1 = issued s @ [[''rev-parse'', ''--abbrev-ref'', ''HEAD'']]"
    using assms by (rule issued_await_gitD)
  finally show "issued (snd (listBranch git parseIdentity platform repositoryPath ListCurrent
                              options s))
                = issued s @ [[''rev-parse'', ''--abbrev-ref'', ''HEAD''],
                              [''for-each-ref'', ''--format='' @ forEachRefFormat,
                               ''--sort=-committerdate'', ''refs/heads/'' @ branchName]]"
    by (simp add: forEachRefArgs_def)
qed


lemma batchOutput_featureBranch: "batchOutput [refFieldsOf featureBranch] = trackingOutput"
  by (simp add: output_eval trackingOutput_def delimiterString_eq)

lemma decode_trackingOutput:
  "decodeBranches exampleParseIdentity ''linux'' trackingOutput = Inr [featureBranch]"
  by (simp add: trackingOutput_def featureBranch_def decode_eval exampleParseIdentity_def)

theorem current_branch_resolution_witness:
  "listBranch scriptedGit exampleParseIdentity ''linux'' ''/repo'' ListCurrent None
      \<lparr>world = [Inr \<lparr>stdout = ''HEAD'' @ [CHR 0x0A], exitCode = 128\<rparr>], issued = []\<rparr>
    = (Inr (Current None), \<lparr>world = [], issued = [[''rev-parse'', ''--abbrev-ref'', ''HEAD'']]\<rparr>)
   \<and> listBranch scriptedGit exampleParseIdentity ''linux'' ''/repo'' ListCurrent None
      \<lparr>world = [Inr \<lparr>stdout = [], exitCode = 1\<rparr>], issued = []\<rparr>
    = (Inr (Current None), \<lparr>world = [], issued = [[''rev-parse'', ''--abbrev-ref'', ''HEAD'']]\<rparr>)
   \<and> trim (''heads/feature'' @ [CHR 0x0A]) = ''heads/'' @ ''feature''
   \<and> listBranch scriptedGit exampleParseIdentity ''linux'' ''/repo'' ListCurrent None
      \<lparr>world = [Inr \<lparr>stdout = ''heads/feature'' @ [CHR 0x0A], exitCode = 0\<rparr>,
                Inr \<lparr>stdout = trackingOutput, exitCode = 0\<rparr>], issued = []\<rparr>
    = (Inr (Current (Some featureBranch)),
       \<lparr>world = [],
        issued = [[''rev-parse'', ''--abbrev-ref'', ''HEAD''],
                  [''for-each-ref'', ''--format='' @ forEachRefFormat, ''--sort=-committerdate'',
                   ''refs/heads/feature'']]\<rparr>)"
proof -
  let ?opts = "Some \<lparr>successExitCodes = Some {0, 1, 128},
      others = (case None :: unit IGitExecutionOptions option of None \<Rightarrow> None
                | Some opt \<Rightarrow> others opt)\<rparr>"
  let ?revParse = "[''rev-parse'', ''--abbrev-ref'', ''HEAD'']"
  have unborn: "await_git scriptedGit ?revParse ''/repo'' ''getCurrentBranch'' ?opts
      \<lparr>world = [Inr \<lparr>stdout = ''HEAD'' @ [CHR 0x0A], exitCode = 128\<rparr>], issued = []\<rparr>
    = (Inr \<lparr>stdout = ''HEAD'' @ [CHR 0x0A], exitCode = 128\<rparr>, \<lparr>world = [], issued = [?revParse]\<rparr>)"
    by (simp add: await_git_def scriptedGit_def)
  have detached: "await_git scriptedGit ?revParse ''/repo'' ''getCurrentBranch'' ?opts
      \<lparr>world = [Inr \<lparr>stdout = [], exitCode = 1\<rparr>], issued = []\<rparr>
    = (Inr \<lparr>stdout = [], exitCode = 1\<rparr>, \<lparr>world = [], issued = [?revParse]\<rparr>)"
    by (simp add: await_git_def scriptedGit_def)
  have named: "await_git scriptedGit ?revParse ''/repo'' ''getCurrentBranch'' ?opts
      \<lparr>world = [Inr \<lparr>stdout = ''heads/feature'' @ [CHR 0x0A], exitCode = 0\<rparr>,
                Inr \<lparr>stdout = trackingOutput, exitCode = 0\<rparr>], issued = []\<rparr>
    = (Inr \<lparr>stdout = ''heads/feature'' @ [CHR 0x0A], exitCode = 0\<rparr>,
       \<lparr>world = [Inr \<lparr>stdout = trackingOutput, exitCode = 0\<rparr>], issued = [?revParse]\<rparr>)"
    by (simp add: await_git_def scriptedGit_def)
  have trimmed: "trim (''heads/feature'' @ [CHR 0x0A]) = ''heads/'' @ ''feature''"
    by (simp add: trim_def isWhiteSpace_def)
  have listing: "getBranches scriptedGit exampleParseIdentity ''linux'' ''/repo''
      [''refs/heads/'' @ ''feature''] None
      \<lparr>world = [Inr \<lparr>stdout = trackingOutput, exitCode = 0\<rparr>], issued = [?revParse]\<rparr>
    = (Inr [featureBranch],
       \<lparr>world = [], issued = [?revParse, forEachRefArgs [''refs/heads/feature'']]\<rparr>)"
    by (simp add: getBranches_def await_git_def scriptedGit_def decode_trackingOutput)
  from current_branch_resolution[OF unborn, where parseIdentity = exampleParseIdentity
      and platform = "''linux''"]
    current_branch_resolution[OF detached, where parseIdentity = exampleParseIdentity
      and platform = "''linux''"]
    current_branch_resolution[OF named, where parseIdentity = exampleParseIdentity
      and platform = "''linux''" and branchName = "''feature''"]
  show ?thesis
    using trimmed listing by (simp add: shift_def forEachRefArgs_def)
qed

subsection \<open>\<open>deleteBranch\<close> and the remote deletion\<close>

lemma pushIssued_appended:
  "issued s' = issued s @ invocations \<Longrightarrow>
   pushIssued s s' = list_ex (\<lambda>args. take 1 args = [''push'']) invocations"
  by (simp add: pushIssued_def newInvocations_def)

lemma newInvocations_appended:
  "issued s' = issued s @ invocations \<Longrightarrow> newInvocations s s' = invocations"
  by (simp add: newInvocations_def)

lemma forEachRefArgs_no_push: "take (Suc 0) (forEachRefArgs prefixes) \<noteq> [''push'']"
  by (simp add: forEachRefArgs_def)

lemma deleteBranch_local:
  assumes "\<not> truthy (remoteOption deleteOptions)"
  shows "issued (snd (deleteBranch git parseIdentity platform branchRemote
                 branchUpstreamWithoutRemote repositoryPath branchName deleteOptions options s))
         = issued s @ [[''branch'', (if truthy (forceOption deleteOptions) then ''-D'' else ''-d''),
                        branchName]]"
  using assms
  by (auto simp: deleteBranch_def Let_def split: prod.splits sum.splits dest: issued_await_gitD)

text \<open>
  Claim C10, as the code has it. \<open>deleteBranch\<close> issues the push that deletes the remote
  branch if and only if the \<open>remote\<close> option is true, the listing before the deletion and
  the local deletion both succeed, and the first branch of the listing whose name, after
  stripping a leading \<open>heads/\<close>, equals the requested name has a non-empty remote. When the
  \<open>remote\<close> option is absent or false, it issues exactly one invocation, the local deletion.
\<close>

theorem remote_deletion_push:
  fixes git :: "('x, 'w) git" and parseIdentity :: "string option \<Rightarrow> error + 'i option"
  shows
  "pushIssued s (snd (deleteBranch git parseIdentity platform branchRemote
                        branchUpstreamWithoutRemote repositoryPath branchName deleteOptions
                        options s))
     = (truthy (remoteOption deleteOptions)
        \<and> (\<exists>branches s1 result s2 branch r.
              getBranches git parseIdentity platform repositoryPath [] options s
                = (Inr branches, s1)
              \<and> await_git git
                    [''branch'', (if truthy (forceOption deleteOptions) then ''-D'' else ''-d''),
                     branchName]
                    repositoryPath ''deleteBranch'' options s1
                  = (Inr result, s2)
              \<and> find_first (\<lambda>branch. stripHeads (name branch) = branchName) branches
                  = Some branch
              \<and> branchRemote branch = Some r \<and> r \<noteq> []))
   \<and> (\<not> truthy (remoteOption deleteOptions) \<longrightarrow>
        newInvocations s (snd (deleteBranch git parseIdentity platform branchRemote
                                 branchUpstreamWithoutRemote repositoryPath branchName
                                 deleteOptions options s))
          = [[''branch'', (if truthy (forceOption deleteOptions) then ''-D'' else ''-d''),
              branchName]])"
proof -
  let ?args = "[''branch'', (if truthy (forceOption deleteOptions) then ''-D'' else ''-d''),
               branchName]"
  let ?final = "snd (deleteBranch git parseIdentity platform branchRemote
                        branchUpstreamWithoutRemote repositoryPath branchName deleteOptions
                        options s)"
  let ?found = "\<exists>branches s1 result s2 branch r.
              getBranches git parseIdentity platform repositoryPath [] options s
                = (Inr branches, s1)
              \<and> await_git git ?args repositoryPath ''deleteBranch'' options s1 = (Inr result, s2)
              \<and> find_first (\<lambda>branch. stripHeads (name branch) = branchName) branches
                  = Some branch
              \<and> branchRemote branch = Some r \<and> r \<noteq> []"
  have local: "\<not> truthy (remoteOption deleteOptions) \<Longrightarrow> issued ?final = issued s @ [?args]"
    by (rule deleteBranch_local)
  have push: "pushIssued s ?final = (truthy (remoteOption deleteOptions) \<and> ?found)"
  proof (cases "truthy (remoteOption deleteOptions)")
    case False
    then show ?thesis using pushIssued_appended[OF local[OF False]] by simp
  next
    case remote: True
    obtain listing s1 where g: "getBranches git parseIdentity platform repositoryPath [] options s
        = (listing, s1)" by (cases "getBranches git parseIdentity platform repositoryPath [] options s")
    have i1: "issued s1 = issued s @ [forEachRefArgs []]" using g by (rule issued_getBranchesD)
    show ?thesis
    proof (cases listing)
      case (Inl e)
      then have "?final = s1" using remote g by (simp add: deleteBranch_def)
      then show ?thesis
        using pushIssued_appended[OF i1] g Inl by (simp add: forEachRefArgs_no_push)
    next
      case (Inr branches)
      obtain deleted s2 where d: "await_git git ?args repositoryPath ''deleteBranch'' options s1
          = (deleted, s2)"
        by (cases "await_git git ?args repositoryPath ''deleteBranch'' options s1")
      have i2: "issued s2 = issued s @ [forEachRefArgs [], ?args]"
        using issued_await_gitD[OF d] i1 by simp
      have quiet: "?final = s2 \<Longrightarrow> \<not> pushIssued s ?final"
        using pushIssued_appended[OF i2] by (simp add: forEachRefArgs_no_push)
      show ?thesis
      proof (cases deleted)
        case (Inl e)
        then have "?final = s2" using remote g Inr d by (simp add: deleteBranch_def)
        then show ?thesis using quiet g Inr d Inl by auto
      next
        case deletedOk: (Inr result)
        show ?thesis
        proof (cases "find_first (\<lambda>branch. stripHeads (name branch) = branchName) branches")
          case None
          then have "?final = s2"
            using remote g Inr d deletedOk by (simp add: deleteBranch_def)
          then show ?thesis using quiet g Inr d None by auto
        next
          case (Some branch)
          then have nonempty: "branches \<noteq> []" by auto
          show ?thesis
          proof (cases "\<exists>r. branchRemote branch = Some r \<and> r \<noteq> []")
            case False
            then have "?final = s2"
              using remote g Inr d deletedOk Some nonempty
              by (auto simp: deleteBranch_def split: option.splits)
            then show ?thesis using quiet g Inr d Some False by auto
          next
            case True
            then obtain r where r: "branchRemote branch = Some r" "r \<noteq> []" by blast
            let ?push = "[''push'', r, '':'' @ interpolate (branchUpstreamWithoutRemote branch)]"
            have "?final = snd (await_git git ?push repositoryPath ''deleteRemoteBranch''
                                  options s2)"
              using remote g Inr d deletedOk Some nonempty r
              by (simp add: deleteBranch_def split: prod.splits sum.splits)
            then have "issued ?final = issued s @ [forEachRefArgs [], ?args, ?push]"
              using issued_await_git[of git ?push repositoryPath "''deleteRemoteBranch''"
                  options s2] i2 by simp
            from pushIssued_appended[OF this] have "pushIssued s ?final" by simp
            moreover have ?found using g Inr d deletedOk Some r by blast
            ultimately show ?thesis using remote by simp
          qed
        qed
      qed
    qed
  qed
  show ?thesis
    using push newInvocations_appended[OF local] by simp
qed

subsection \<open>Encoding branch data and decoding it again\<close>

lemma cleanText_append: "cleanText (x @ y) = (cleanText x \<and> cleanText y)"
  by (auto simp: cleanText_def)

lemma cleanText_join:
  "list_all cleanText xs \<Longrightarrow> cleanText (join '' '' xs)"
proof (induction xs rule: induct_list012)
  case 1
  then show ?case by (simp add: cleanText_def)
next
  case (2 x)
  then show ?case by simp
next
  case (3 x y zs)
  then show ?case by (simp add: cleanText_def delimiterString_eq)
qed

lemma wellFormed_refFieldsOf:
  assumes "validBranchData b"
  shows "wellFormed (refFieldsOf b)"
proof -
  have prefixes: "cleanText ''refs/heads/''" "cleanText ''refs/remotes/''" "cleanText []"
    by (simp_all add: cleanText_def delimiterString_eq)
  have parents: "cleanText (join '' '' (parentSHAs (tip b)))"
    using assms by (intro cleanText_join) (simp add: validBranchData_def list_all_iff)
  show ?thesis
    using assms prefixes parents
    by (auto simp: wellFormed_def fieldsOf_def refFieldsOf_def validBranchData_def
        cleanText_append split: option.splits)
qed

lemma reconstruct_refFieldsOf:
  assumes valid: "validBranchData b"
    and parents: "parentSHAs (tip b) \<noteq> []"
    and parsed: "parseIdentity (Some (author (tip b))) = Inr (Some (ident (author (tip b))))"
  shows "reconstruct parseIdentity (fieldsOf (refFieldsOf b) @ [[]]) = Inr (identified ident b)"
proof -
  have split: "str_split (CHR '' '') (join '' '' (parentSHAs (tip b))) = parentSHAs (tip b)"
    using valid parents
    by (intro str_split_join) (auto simp: validBranchData_def list_all_iff)
  have kind: "(if startsWith (refname (refFieldsOf b)) ''refs/head'' then Local else Remote) = type b"
    by (cases "type b") (simp_all add: refFieldsOf_def startsWith_def)
  have up: "(if length (upstreamShort (refFieldsOf b)) > 0 then Some (upstreamShort (refFieldsOf b))
             else None) = upstream b"
    using valid by (auto simp: refFieldsOf_def validBranchData_def split: option.splits)
  have texts: "Some (subject (refFieldsOf b)) = summary (tip b)"
      "Some (bodyText (refFieldsOf b)) = body (tip b)"
    using valid by (auto simp: refFieldsOf_def validBranchData_def split: option.splits)
  have fields: "authorLine (refFieldsOf b) = author (tip b)"
      "parent (refFieldsOf b) = join '' '' (parentSHAs (tip b))"
      "refnameShort (refFieldsOf b) = name b" "objectname (refFieldsOf b) = sha (tip b)"
    by (simp_all add: refFieldsOf_def)
  show ?thesis
    using up unfolding fieldsOf_def
    by (auto simp add: reconstruct_six parsed fields split kind at_def texts identified_def
        split: if_splits)
qed

text \<open>
  Claim C2, as the code has it. For every list of valid branch data in which each branch has
  at least one parent and an identity line that the parser accepts, decoding the batch output
  that git prints for it gives the same branches (name, upstream, hash, parents, summary,
  body, classification, and the parsed identity) in the same order; on the platform
  \<open>darwin\<close> the decoder returns them in reverse order.
\<close>

theorem round_trip:
  assumes "\<forall>b\<in>set bs. validBranchData b \<and> parentSHAs (tip b) \<noteq> []
             \<and> parseIdentity (Some (author (tip b))) = Inr (Some (ident (author (tip b))))"
  shows "decodeBranches parseIdentity platform (batchOutput (map refFieldsOf bs))
           = Inr (map (identified ident) (if platform = ''darwin'' then rev bs else bs))"
proof -
  have wf: "\<forall>r\<in>set (map refFieldsOf bs). wellFormed r"
    using assms by (simp add: wellFormed_refFieldsOf)
  have "list_all2 (\<lambda>pieces b'. reconstruct parseIdentity pieces = Inr b')
          (decodeRecords (batchOutput (map refFieldsOf bs))) (map (identified ident) bs)"
    unfolding decodeRecords_batch[OF wf]
    using assms
    by (auto simp: list_all2_map1 list_all2_map2 reconstruct_refFieldsOf intro!: list_all2_same[THEN iffD2])
  from decodeBranches_all_Inr[OF this, of platform] show ?thesis
    by (simp add: rev_map)
qed

lemma valid_examples: "validBranchData featureBranch" "validBranchData originFeature"
  by (simp_all add: validBranchData_def cleanText_def delimiterString_eq featureBranch_def
      originFeature_def)

theorem round_trip_witness:
  "validBranchData featureBranch \<and> validBranchData originFeature
   \<and> decodeBranches exampleParseIdentity ''linux''
         (batchOutput (map refFieldsOf [featureBranch, originFeature]))
       = Inr [featureBranch, originFeature]
   \<and> decodeBranches exampleParseIdentity ''darwin''
         (batchOutput (map refFieldsOf [featureBranch, originFeature]))
       = Inr [originFeature, featureBranch]"
proof -
  have hyp: "\<forall>b\<in>set [featureBranch, originFeature].
      validBranchData b \<and> parentSHAs (tip b) \<noteq> []
      \<and> exampleParseIdentity (Some (author (tip b))) = Inr (Some ((\<lambda>line. line) (author (tip b))))"
    using valid_examples
    by (simp add: exampleParseIdentity_def featureBranch_def originFeature_def)
  have same: "identified (\<lambda>line. line) featureBranch = featureBranch"
      "identified (\<lambda>line. line) originFeature = originFeature"
    by (simp_all add: identified_def featureBranch_def originFeature_def)
  from round_trip[OF hyp, of "''linux''"] round_trip[OF hyp, of "''darwin''"]
  show ?thesis using valid_examples by (simp add: same)
qed

text \<open>
  The claim as written fails on \<open>darwin\<close>: the decoded list of two branches is the reverse
  of the encoded one.
\<close>

theorem round_trip_counterexample:
  "validBranchData featureBranch \<and> validBranchData originFeature
   \<and> decodeBranches exampleParseIdentity ''darwin''
         (batchOutput (map refFieldsOf [featureBranch, originFeature]))
       \<noteq> Inr [featureBranch, originFeature]"
proof -
  have "decodeBranches exampleParseIdentity ''darwin''
         (batchOutput (map refFieldsOf [featureBranch, originFeature]))
       = Inr [originFeature, featureBranch]"
    by (simp add: output_eval decode_eval exampleParseIdentity_def)
  moreover have "featureBranch \<noteq> originFeature"
    by (simp add: featureBranch_def originFeature_def)
  ultimately show ?thesis using valid_examples by simp
qed

lemmas delete_eval =
  deleteBranch_def getBranches_def await_git_def scriptedGit_def truthy_def remoteOption_def
  forceOption_def exampleRemote_def exampleUpstreamWithoutRemote_def stripHeads_def
  startsWith_def interpolate_def pushIssued_def newInvocations_def

theorem remote_deletion_push_witness:
  "deleteBranch scriptedGit exampleParseIdentity ''linux'' exampleRemote
      exampleUpstreamWithoutRemote ''/repo'' ''feature''
      (Some \<lparr>force = None, remote = Some True\<rparr>) None (replies [trackingOutput, [], []])
    = (Inr (),
       \<lparr>world = [],
        issued = [forEachRefArgs [], [''branch'', ''-d'', ''feature''],
                  [''push'', ''origin'', '':feature'']]\<rparr>)
   \<and> pushIssued (replies [trackingOutput, [], []])
        (snd (deleteBranch scriptedGit exampleParseIdentity ''linux'' exampleRemote
                exampleUpstreamWithoutRemote ''/repo'' ''feature''
                (Some \<lparr>force = None, remote = Some True\<rparr>) None
                (replies [trackingOutput, [], []])))
   \<and> newInvocations (replies [[]])
        (snd (deleteBranch scriptedGit exampleParseIdentity ''linux'' exampleRemote
                exampleUpstreamWithoutRemote ''/repo'' ''feature''
                (Some \<lparr>force = Some True, remote = None\<rparr>) None (replies [[]])))
       = [[''branch'', ''-D'', ''feature'']]"
proof -
  have run: "deleteBranch scriptedGit exampleParseIdentity ''linux'' exampleRemote
      exampleUpstreamWithoutRemote ''/repo'' ''feature''
      (Some \<lparr>force = None, remote = Some True\<rparr>) None (replies [trackingOutput, [], []])
    = (Inr (),
       \<lparr>world = [],
        issued = [forEachRefArgs [], [''branch'', ''-d'', ''feature''],
                  [''push'', ''origin'', '':feature'']]\<rparr>)"
    by (simp add: delete_eval replies_def decode_trackingOutput featureBranch_def)
  have local: "\<not> truthy (remoteOption (Some \<lparr>force = Some True, remote = None\<rparr>))"
    by (simp add: truthy_def remoteOption_def)
  from remote_deletion_push[where git = scriptedGit and parseIdentity = exampleParseIdentity
      and platform = "''linux''" and branchRemote = exampleRemote
      and branchUpstreamWithoutRemote = exampleUpstreamWithoutRemote
      and repositoryPath = "''/repo''" and branchName = "''feature''"
      and deleteOptions = "Some \<lparr>force = Some True, remote = None\<rparr>" and options = None
      and s = "replies [[]]"]
  have "newInvocations (replies [[]])
        (snd (deleteBranch scriptedGit exampleParseIdentity ''linux'' exampleRemote
                exampleUpstreamWithoutRemote ''/repo'' ''feature''
                (Some \<lparr>force = Some True, remote = None\<rparr>) None (replies [[]])))
       = [[''branch'', ''-D'', ''feature'']]"
    using local by (simp add: truthy_def forceOption_def)
  then show ?thesis
    using run by (simp add: pushIssued_def newInvocations_def replies_def)
qed

text \<open>
  The claim as written fails twice. In a listing where the first branch named \<open>feature\<close>
  (after stripping) has no remote and a later one has the remote \<open>origin\<close>, no push is
  issued; and when the local deletion throws, no push is issued although the listing holds a
  matching branch with a remote.
\<close>

theorem remote_deletion_counterexample:
  "decodeBranches exampleParseIdentity ''linux'' shadowedOutput
     = Inr [featureBranch\<lparr>name := ''heads/feature'', upstream := None\<rparr>, featureBranch]
   \<and> stripHeads (name featureBranch) = ''feature''
   \<and> exampleRemote featureBranch = Some ''origin''
   \<and> deleteBranch scriptedGit exampleParseIdentity ''linux'' exampleRemote
        exampleUpstreamWithoutRemote ''/repo'' ''feature''
        (Some \<lparr>force = None, remote = Some True\<rparr>) None (replies [shadowedOutput, [], []])
      = (Inr (),
         \<lparr>world = [Inr \<lparr>stdout = [], exitCode = 0\<rparr>],
          issued = [forEachRefArgs [], [''branch'', ''-d'', ''feature'']]\<rparr>)
   \<and> deleteBranch scriptedGit exampleParseIdentity ''linux'' exampleRemote
        exampleUpstreamWithoutRemote ''/repo'' ''feature''
        (Some \<lparr>force = None, remote = Some True\<rparr>) None
        \<lparr>world = [Inr \<lparr>stdout = trackingOutput, exitCode = 0\<rparr>,
                  Inl (GitError ''not fully merged'')],
         issued = []\<rparr>
      = (Inl (GitError ''not fully merged''),
         \<lparr>world = [], issued = [forEachRefArgs [], [''branch'', ''-d'', ''feature'']]\<rparr>)"
proof -
  have shadowed: "decodeBranches exampleParseIdentity ''linux'' shadowedOutput
     = Inr [featureBranch\<lparr>name := ''heads/feature'', upstream := None\<rparr>, featureBranch]"
    by (simp add: shadowedOutput_def trackingOutput_def featureBranch_def decode_eval
        exampleParseIdentity_def)
  show ?thesis
    by (simp add: delete_eval replies_def shadowed decode_trackingOutput featureBranch_def)
qed

end
